theory Spec2Isabelle
  imports Complex_Main "HOL-Library.AList"
begin

section \<open>The tez training harness (tez/model/model.py)\<close>

text \<open>
  The class \<open>Model\<close> drives a host deep-learning framework: every operation of it is a
  sequence of conditional calls into that framework, with bookkeeping on the object in
  between. The embedding keeps the object as a record, the calls into the framework as a
  trace of events (each with the exception it raised, if any), and the files written by
  \<open>save\<close> as a map from paths to the persisted Python value. Exceptions are values: a
  program returns \<open>Inl e\<close> together with the state reached when \<open>e\<close> was raised.
\<close>

subsection \<open>Python values and exceptions\<close>

datatype error =
    RuntimeError string
  | ValueError
  | UnboundLocalError string
  | ZeroDivisionError
  | KeyError string
  | AttributeError string
  | TypeError
  | FileNotFoundError string
  | HostError nat

datatype pyval =
    PNone
  | PBool bool
  | PInt int
  | PTensor nat
  | PObj nat
  | PDict "(string \<times> pyval) list"

text \<open>
  Python's \<open>d[k]\<close> on a persisted value: a missing key raises KeyError, a value that
  is not a mapping raises TypeError.
\<close>

fun subscript :: "pyval \<Rightarrow> string \<Rightarrow> error + pyval" where
  "subscript (PDict kvs) k = (case map_of kvs k of None \<Rightarrow> Inl (KeyError k) | Some v \<Rightarrow> Inr v)"
| "subscript _ k = Inl TypeError"

subsection \<open>Enumerations\<close>

text \<open>
  Modelled from the spec: \<open>tez/enums.py\<close> is not among the sources. The spec names
  a coarse model-lifecycle enum (train/valid/test/end); \<open>ModelState_value\<close> is the
  \<open>.value\<close> of a member. The training-state enum has the members that model.py assigns.
\<close>

datatype ModelState = TRAIN | VALID | TEST | END

fun ModelState_value :: "ModelState \<Rightarrow> string" where
  "ModelState_value TRAIN = ''train''"
| "ModelState_value VALID = ''valid''"
| "ModelState_value TEST = ''test''"
| "ModelState_value END = ''end''"

datatype TrainingState =
    TRAIN_START
  | TRAIN_END
  | EPOCH_START
  | EPOCH_END
  | TRAIN_EPOCH_START
  | TRAIN_EPOCH_END
  | VALID_EPOCH_START
  | VALID_EPOCH_END
  | TRAIN_STEP_START
  | TRAIN_STEP_END
  | VALID_STEP_START
  | VALID_STEP_END

subsection \<open>Objects of the host framework\<close>

text \<open>
  The host's objects are opaque: a module, an optimizer, a scheduler, a gradient scaler, a
  dataset and a collate function are identified by a number. Tensors and the Python
  floats read from them are kept symbolically, so that no floating-point arithmetic is
  interpreted: \<open>Loss n\<close> is the loss returned by the forward pass that was the \<open>n\<close>-th
  call into the host.
\<close>

datatype module = Module nat | DataParallel module | DistributedDataParallel module int

datatype device = DeviceName string | TorchDevice string | TorchCuda int | XlaDevice

datatype sampler = Sampler nat | DistributedSampler nat bool

datatype tensor = Logits nat | Loss nat | Mean tensor | Div tensor int | GatherMean tensor

datatype scalar = Item tensor | Times scalar int

type_synonym optimizer = nat
type_synonym scheduler = nat
type_synonym scaler = nat
type_synonym dataset = nat
type_synonym batch = "(string \<times> nat) list"

text \<open>
  Modelled from the spec: \<open>tez.utils.AverageMeter\<close> is not among the sources. The spec
  calls the stored metrics named running-average values; a meter is kept as the list of
  its updates (value and weight, oldest first), and its \<open>avg\<close> as the average of that list.
\<close>

type_synonym AverageMeter = "(scalar \<times> int) list"

datatype running_avg = Avg "(scalar \<times> int) list"

definition meter_update :: "AverageMeter \<Rightarrow> scalar \<Rightarrow> int \<Rightarrow> AverageMeter" where
  "meter_update m v n = m @ [(v, n)]"

definition meter_avg :: "AverageMeter \<Rightarrow> running_avg" where
  "meter_avg m = Avg m"

record loader =
  ld_dataset :: dataset
  ld_batch_size :: int
  ld_num_workers :: int
  ld_sampler :: "sampler option"
  ld_shuffle :: bool
  ld_collate_fn :: "nat option"

subsection \<open>The configuration record and the object\<close>

record args =
  args_epochs :: int
  args_train_batch_size :: int
  args_valid_batch_size :: int
  args_n_jobs :: int
  args_device :: string
  args_accumulation_steps :: int
  args_clip_grad_norm :: "rat option"
  args_train_shuffle :: bool
  args_fp16 :: bool

type_synonym metrics_dict = "(string \<times> (string \<times> running_avg) list) list"

text \<open>
  The attributes of \<open>Model\<close> that the code assigns on the object (lines 29-55, all but
  \<open>metrics\<close>), with \<open>device_count\<close>, which \<open>_init_tez\<close> adds. The private attributes
  \<open>_model_state\<close>, \<open>_train_state\<close> and \<open>_callback_runner\<close> are \<open>priv_model_state\<close>,
  \<open>priv_train_state\<close> and \<open>priv_callback_runner\<close>; the callback runner is kept as the list
  of callbacks it was built from.
\<close>

record Model =
  model :: "module option"
  train_loader :: "loader option"
  valid_loader :: "loader option"
  optimizer :: "optimizer option"
  scheduler :: "scheduler option"
  step_scheduler_after :: "string option"
  step_scheduler_metric :: "string option"
  current_epoch :: int
  current_train_step :: int
  current_valid_step :: int
  priv_model_state :: "ModelState option"
  priv_train_state :: "TrainingState option"
  device :: "device option"
  priv_callback_runner :: "nat list option"
  fp16 :: bool
  scaler :: "scaler option"
  accumulation_steps :: int
  batch_index :: int
  clip_grad_norm :: "rat option"
  using_tpu :: bool
  local_rank :: int
  train_sampler :: "sampler option"
  valid_sampler :: "sampler option"
  device_count :: "int option"

definition Model_init :: Model where
  "Model_init = \<lparr>
     model = None, train_loader = None, valid_loader = None, optimizer = None,
     scheduler = None, step_scheduler_after = None, step_scheduler_metric = None,
     current_epoch = 0, current_train_step = 0, current_valid_step = 0,
     priv_model_state = None, priv_train_state = None, device = None,
     priv_callback_runner = None, fp16 = False, scaler = None, accumulation_steps = 0,
     batch_index = 0,
     clip_grad_norm = None, using_tpu = False, local_rank = - 1, train_sampler = None,
     valid_sampler = None, device_count = None \<rparr>"

text \<open>
  \<open>metrics\<close> is bound in the class body (lines 47-50) and no line rebinds it on an
  object: \<open>self.metrics\<close> is the one mapping of the class, shared by all its objects, and
  \<open>update_metrics\<close> mutates it in place (lines 152-153). It is therefore a component of
  the world, not of the object; \<open>metrics_init\<close> is its value when the class body has run.
\<close>

definition metrics_init :: metrics_dict where
  "metrics_init = AList.update ''test'' [] (AList.update ''valid'' [] (AList.update ''train'' [] []))"

subsection \<open>Calls into the host and the world\<close>

datatype metric_arg = EpochArg int | MetricArg running_avg

datatype call =
    Xm_xla_device
  | Model_to module "device option"
  | Model_parameters module
  | Model_train module
  | Model_eval module
  | Model_zero_grad module
  | Model_state_dict module
  | Model_load_state_dict module pyval
  | Tensor_to nat "device option"
  | Forward module batch bool
  | Tensor_mean tensor
  | Tensor_div tensor int
  | Tensor_item tensor
  | Backward tensor
  | Scaler_scale_backward scaler tensor
  | Clip_grad_norm module rat
  | Scaler_step scaler "optimizer option"
  | Scaler_update scaler
  | Xm_optimizer_step "optimizer option"
  | Optimizer_step optimizer
  | Optimizer_zero_grad optimizer
  | Optimizer_state_dict optimizer
  | Scheduler_step scheduler "metric_arg option"
  | Scheduler_state_dict scheduler
  | Sampler_set_epoch sampler int
  | Dist_barrier
  | Dist_all_gather tensor
  | Dist_init_process_group
  | New_DataParallel module
  | New_DistributedDataParallel module int
  | New_DistributedSampler dataset bool
  | New_DataLoader loader
  | New_GradScaler
  | Torch_save pyval string
  | Xm_save pyval string
  | Torch_device device
  | Torch_load string device
  | Callback_runner_call "nat list" TrainingState

type_synonym event = "call \<times> error option"

record world =
  self :: Model
  metrics :: metrics_dict
  trace :: "event list"
  disk :: "string \<rightharpoonup> pyval"

text \<open>
  What the program cannot decide is a parameter: whether the XLA import succeeded
  (lines 17-24), the integer read from the environment variable LOCAL_RANK (line 393;
  \<open>Inl\<close> when \<open>int\<close> rejects the text), the machine's CPU and GPU counts, which calls
  into the host raise (by position in the trace), the batches a loader yields, the state
  mappings of the host's objects, the optimizer and scheduler that the hooks
  \<open>fetch_optimizer\<close> and \<open>fetch_scheduler\<close> return (\<open>None\<close> in the base class), and what the
  callback runner does to the object for a training state.
\<close>

record env =
  XLA_AVAILABLE :: bool
  LOCAL_RANK :: "error + int"
  cpu_count :: int
  cuda_device_count :: int
  host_fails :: "nat \<Rightarrow> call \<Rightarrow> error option"
  batches :: "loader \<Rightarrow> batch list"
  module_state_dict :: "module \<Rightarrow> event list \<Rightarrow> pyval"
  optimizer_state_dict :: "optimizer \<Rightarrow> event list \<Rightarrow> pyval"
  scheduler_state_dict :: "scheduler \<Rightarrow> event list \<Rightarrow> pyval"
  param_device :: "module \<Rightarrow> event list \<Rightarrow> device"
  fetch_optimizer :: "optimizer option"
  fetch_scheduler :: "scheduler option"
  run_callbacks :: "nat list \<Rightarrow> TrainingState \<Rightarrow> Model \<Rightarrow> (error + unit) \<times> Model"

subsection \<open>Programs: state passing with exceptions\<close>

type_synonym 'a prog = "world \<Rightarrow> (error + 'a) \<times> world"

definition ret :: "'a \<Rightarrow> 'a prog" where
  "ret x = (\<lambda>w. (Inr x, w))"

definition raise :: "error \<Rightarrow> 'a prog" where
  "raise e = (\<lambda>w. (Inl e, w))"

definition bind :: "'a prog \<Rightarrow> ('a \<Rightarrow> 'b prog) \<Rightarrow> 'b prog" where
  "bind m f = (\<lambda>w. case m w of (Inl e, w') \<Rightarrow> (Inl e, w') | (Inr x, w') \<Rightarrow> f x w')"

definition seq :: "unit prog \<Rightarrow> 'b prog \<Rightarrow> 'b prog" where
  "seq m n = bind m (\<lambda>_. n)"

definition get_self :: "Model prog" where
  "get_self = (\<lambda>w. (Inr (self w), w))"

definition get_trace :: "event list prog" where
  "get_trace = (\<lambda>w. (Inr (trace w), w))"

definition get_metrics :: "metrics_dict prog" where
  "get_metrics = (\<lambda>w. (Inr (metrics w), w))"

definition set_metrics :: "metrics_dict \<Rightarrow> unit prog" where
  "set_metrics v = (\<lambda>w. (Inr (), w\<lparr>metrics := v\<rparr>))"

definition assign :: "(Model \<Rightarrow> Model) \<Rightarrow> unit prog" where
  "assign f = (\<lambda>w. (Inr (), w\<lparr>self := f (self w)\<rparr>))"

definition lift :: "error + 'a \<Rightarrow> 'a prog" where
  "lift r = (case r of Inl e \<Rightarrow> raise e | Inr x \<Rightarrow> ret x)"

text \<open>An attribute that holds \<open>None\<close> has none of the methods called on it.\<close>

definition attr :: "'a option \<Rightarrow> string \<Rightarrow> 'a prog" where
  "attr v name = (case v of None \<Rightarrow> raise (AttributeError name) | Some x \<Rightarrow> ret x)"

text \<open>
  A call into the host is appended to the trace with its outcome; when the host raises,
  the exception is the program's.
\<close>

definition host :: "env \<Rightarrow> call \<Rightarrow> unit prog" where
  "host env c = (\<lambda>w.
     case host_fails env (length (trace w)) c of
       Some e \<Rightarrow> (Inl e, w\<lparr>trace := trace w @ [(c, Some e)]\<rparr>)
     | None \<Rightarrow> (Inr (), w\<lparr>trace := trace w @ [(c, None)]\<rparr>))"

primrec foreach :: "'a list \<Rightarrow> ('a \<Rightarrow> unit prog) \<Rightarrow> unit prog" where
  "foreach [] f = ret ()"
| "foreach (x # xs) f = seq (f x) (foreach xs f)"

subsection \<open>Properties and small helpers (lines 57-93)\<close>

definition set_model_state :: "ModelState \<Rightarrow> unit prog" where
  "set_model_state v = assign (\<lambda>s. s\<lparr>priv_model_state := Some v\<rparr>)"

text \<open>
  Invoking the callback runner: the runner acts on the object, and the invocation is an
  event of the trace, with the exception the runner raised, if any.
\<close>

definition callback_runner_call :: "env \<Rightarrow> nat list \<Rightarrow> TrainingState \<Rightarrow> unit prog" where
  "callback_runner_call env cbs v = (\<lambda>w.
     case run_callbacks env cbs v (self w) of
       (r, s') \<Rightarrow>
         (r, w\<lparr>self := s',
               trace := trace w @
                 [(Callback_runner_call cbs v, case r of Inl e \<Rightarrow> Some e | Inr _ \<Rightarrow> None)]\<rparr>))"

definition set_train_state :: "env \<Rightarrow> TrainingState \<Rightarrow> unit prog" where
  "set_train_state env v =
     seq (assign (\<lambda>s. s\<lparr>priv_train_state := Some v\<rparr>))
    (bind get_self (\<lambda>s.
       case priv_callback_runner s of
         None \<Rightarrow> ret ()
       | Some cbs \<Rightarrow> callback_runner_call env cbs v))"

text \<open>Python's \<open>str.split("_")\<close> and \<open>"_".join\<close>.\<close>

fun split_us :: "string \<Rightarrow> string list" where
  "split_us [] = [[]]"
| "split_us (c # cs) =
     (if c = CHR ''_'' then [] # split_us cs
      else (case split_us cs of [] \<Rightarrow> [[c]] | p # ps \<Rightarrow> (c # p) # ps))"

fun join_us :: "string list \<Rightarrow> string" where
  "join_us [] = []"
| "join_us [x] = x"
| "join_us (x # y # ys) = x @ ''_'' @ join_us (y # ys)"

definition name_to_metric :: "string \<Rightarrow> metric_arg prog" where
  "name_to_metric metric_name =
     bind get_self (\<lambda>s.
       if metric_name = ''current_epoch'' then ret (EpochArg (current_epoch s))
       else
         let v_1 = hd (split_us metric_name);
             v_2 = join_us (tl (split_us metric_name))
         in bind get_metrics (\<lambda>self_metrics.
              case map_of self_metrics v_1 of
                None \<Rightarrow> raise (KeyError v_1)
              | Some d \<Rightarrow>
                  (case map_of d v_2 of
                     None \<Rightarrow> raise (KeyError v_2)
                   | Some v \<Rightarrow> ret (MetricArg v))))"

text \<open>
  The scheduler block that \<open>train_one_step\<close> (lines 129-135, with "batch") and \<open>fit\<close>
  (lines 430-436, with "epoch") share word for word.
\<close>

definition step_scheduler :: "env \<Rightarrow> string \<Rightarrow> unit prog" where
  "step_scheduler env after =
     bind get_self (\<lambda>s.
       case scheduler s of
         None \<Rightarrow> ret ()
       | Some sch \<Rightarrow>
           if step_scheduler_after s = Some after then
             (case step_scheduler_metric s of
                None \<Rightarrow> host env (Scheduler_step sch None)
              | Some name \<Rightarrow>
                  bind (name_to_metric name) (\<lambda>step_metric.
                    host env (Scheduler_step sch (Some step_metric))))
           else ret ())"

subsection \<open>One step (lines 95-153)\<close>

definition forward :: "env \<Rightarrow> module \<Rightarrow> batch \<Rightarrow> bool \<Rightarrow> (tensor \<times> tensor) prog" where
  "forward env m data autocast =
     bind get_trace (\<lambda>t.
       seq (host env (Forward m data autocast)) (ret (Logits (length t), Loss (length t))))"

definition tensor_mean :: "env \<Rightarrow> tensor \<Rightarrow> tensor prog" where
  "tensor_mean env t = seq (host env (Tensor_mean t)) (ret (Mean t))"

definition tensor_div :: "env \<Rightarrow> tensor \<Rightarrow> int \<Rightarrow> tensor prog" where
  "tensor_div env t k = seq (host env (Tensor_div t k)) (ret (Div t k))"

definition tensor_item :: "env \<Rightarrow> tensor \<Rightarrow> scalar prog" where
  "tensor_item env t = seq (host env (Tensor_item t)) (ret (Item t))"

text \<open>Python's \<open>%\<close> on integers: the sign follows the divisor; a zero divisor raises.\<close>

definition py_mod :: "int \<Rightarrow> int \<Rightarrow> int prog" where
  "py_mod a b = (if b = 0 then raise ZeroDivisionError else ret (a mod b))"

text \<open>
  \<open>model_fn\<close>, \<open>train_one_step\<close> and \<open>validate_one_step\<close> assign no attribute, so the
  object is read once, at entry.
\<close>

definition model_fn :: "env \<Rightarrow> batch \<Rightarrow> (tensor \<times> tensor \<times> (string \<times> scalar) list) prog" where
  "model_fn env data =
     bind get_self (\<lambda>s.
     seq (foreach data (\<lambda>(key, v). host env (Tensor_to v (device s))))
    (bind (case model s of
             None \<Rightarrow> raise TypeError
           | Some m \<Rightarrow> forward env m data (fp16 s)) (\<lambda>(output, loss).
     bind (if local_rank s = - 1 then
             bind (attr (device_count s) ''device_count'') (\<lambda>dc.
               if dc > 1 then tensor_mean env loss else ret loss)
           else ret loss) (\<lambda>loss.
     ret (output, loss, [])))))"

definition train_one_step :: "env \<Rightarrow> batch \<Rightarrow> (tensor \<times> (string \<times> scalar) list) prog" where
  "train_one_step env data =
     bind get_self (\<lambda>s.
     seq (if accumulation_steps s = 1 \<and> batch_index s = 0 then
            bind (attr (model s) ''zero_grad'') (\<lambda>m. host env (Model_zero_grad m))
          else ret ())
    (bind (model_fn env data) (\<lambda>(_, loss, step_metrics).
     bind (tensor_div env loss (accumulation_steps s)) (\<lambda>loss.
     seq (if fp16 s then
            bind (attr (scaler s) ''scale'') (\<lambda>sc. host env (Scaler_scale_backward sc loss))
          else host env (Backward loss))
    (seq (case clip_grad_norm s of
            None \<Rightarrow> ret ()
          | Some c \<Rightarrow> bind (attr (model s) ''parameters'') (\<lambda>m. host env (Clip_grad_norm m c)))
    (bind (py_mod (batch_index s + 1) (accumulation_steps s)) (\<lambda>r.
     seq (if r = 0 then
            seq (if fp16 s then
                   bind (attr (scaler s) ''step'') (\<lambda>sc.
                     seq (host env (Scaler_step sc (optimizer s))) (host env (Scaler_update sc)))
                 else if using_tpu s then host env (Xm_optimizer_step (optimizer s))
                 else bind (attr (optimizer s) ''step'') (\<lambda>opt. host env (Optimizer_step opt)))
           (seq (step_scheduler env ''batch'')
                (if batch_index s > 0 then
                   bind (attr (model s) ''zero_grad'') (\<lambda>m. host env (Model_zero_grad m))
                 else ret ()))
          else ret ())
         (ret (loss, step_metrics)))))))))"

definition validate_one_step :: "env \<Rightarrow> batch \<Rightarrow> (tensor \<times> (string \<times> scalar) list) prog" where
  "validate_one_step env data =
     bind get_self (\<lambda>s.
     bind (model_fn env data) (\<lambda>(_, loss, step_metrics).
     bind (if local_rank s = - 1 then
             bind (attr (device_count s) ''device_count'') (\<lambda>dc.
               if dc > 1 then tensor_mean env loss else ret loss)
           else ret loss) (\<lambda>loss.
     ret (loss, step_metrics))))"

text \<open>
  \<open>dict.update(other)\<close> stores every item of \<open>other\<close>, in order; \<open>d[k] = v\<close> is
  \<open>AList.update\<close>: the key keeps its place when present and is appended otherwise.
\<close>

definition dict_update :: "('k \<times> 'v) list \<Rightarrow> ('k \<times> 'v) list \<Rightarrow> ('k \<times> 'v) list" where
  "dict_update d other = fold (\<lambda>(k, v). AList.update k v) other d"

definition update_metrics :: "AverageMeter \<Rightarrow> (string \<times> running_avg) list \<Rightarrow> unit prog" where
  "update_metrics losses monitor =
     bind get_metrics (\<lambda>self_metrics.
     bind get_self (\<lambda>s.
     bind (attr (priv_model_state s) ''value'') (\<lambda>st.
       case map_of self_metrics (ModelState_value st) of
         None \<Rightarrow> raise (KeyError (ModelState_value st))
       | Some d \<Rightarrow>
           set_metrics
             (AList.update (ModelState_value st)
               (AList.update ''loss'' (meter_avg losses) (dict_update d monitor))
               self_metrics))))"

subsection \<open>Checkpoints (lines 265-306)\<close>

definition model_state_dict :: "env \<Rightarrow> module \<Rightarrow> pyval prog" where
  "model_state_dict env m =
     bind get_trace (\<lambda>t. seq (host env (Model_state_dict m)) (ret (module_state_dict env m t)))"

definition torch_save :: "env \<Rightarrow> pyval \<Rightarrow> string \<Rightarrow> unit prog" where
  "torch_save env v path =
     seq (host env (Torch_save v path)) (\<lambda>w. (Inr (), w\<lparr>disk := (disk w)(path \<mapsto> v)\<rparr>))"

definition xm_save :: "env \<Rightarrow> pyval \<Rightarrow> string \<Rightarrow> unit prog" where
  "xm_save env v path =
     seq (host env (Xm_save v path)) (\<lambda>w. (Inr (), w\<lparr>disk := (disk w)(path \<mapsto> v)\<rparr>))"

definition torch_device :: "device \<Rightarrow> device" where
  "torch_device d = (case d of DeviceName name \<Rightarrow> TorchDevice name | _ \<Rightarrow> d)"

text \<open>
  \<open>torch.load\<close> reads what was saved under the path; a missing file is the host's
  FileNotFoundError.
\<close>

definition torch_load :: "env \<Rightarrow> string \<Rightarrow> device \<Rightarrow> pyval prog" where
  "torch_load env path map_location = (\<lambda>w.
     case host_fails env (length (trace w)) (Torch_load path map_location) of
       Some e \<Rightarrow> (Inl e, w\<lparr>trace := trace w @ [(Torch_load path map_location, Some e)]\<rparr>)
     | None \<Rightarrow>
         (case disk w path of
            None \<Rightarrow>
              (Inl (FileNotFoundError path),
               w\<lparr>trace := trace w @
                  [(Torch_load path map_location, Some (FileNotFoundError path))]\<rparr>)
          | Some v \<Rightarrow> (Inr v, w\<lparr>trace := trace w @ [(Torch_load path map_location, None)]\<rparr>)))"

definition save :: "env \<Rightarrow> string \<Rightarrow> bool \<Rightarrow> unit prog" where
  "save env model_path weights_only =
     bind get_self (\<lambda>s.
     bind (attr (model s) ''state_dict'') (\<lambda>m.
     bind (model_state_dict env m) (\<lambda>model_state_dict.
       if weights_only then
         (if using_tpu s then xm_save env model_state_dict model_path
          else torch_save env model_state_dict model_path)
       else
         bind (case optimizer s of
                 Some opt \<Rightarrow>
                   bind get_trace (\<lambda>t.
                     seq (host env (Optimizer_state_dict opt))
                         (ret (optimizer_state_dict env opt t)))
               | None \<Rightarrow> ret PNone) (\<lambda>opt_state_dict.
         bind (case scheduler s of
                 Some sch \<Rightarrow>
                   bind get_trace (\<lambda>t.
                     seq (host env (Scheduler_state_dict sch))
                         (ret (scheduler_state_dict env sch t)))
               | None \<Rightarrow> ret PNone) (\<lambda>sch_state_dict.
           let model_dict = [];
               model_dict = AList.update ''state_dict'' model_state_dict model_dict;
               model_dict = AList.update ''optimizer'' opt_state_dict model_dict;
               model_dict = AList.update ''scheduler'' sch_state_dict model_dict;
               model_dict = AList.update ''epoch'' (PInt (current_epoch s)) model_dict;
               model_dict = AList.update ''fp16'' (PBool (fp16 s)) model_dict
           in if using_tpu s then xm_save env (PDict model_dict) model_path
              else torch_save env (PDict model_dict) model_path)))))"

definition load :: "env \<Rightarrow> string \<Rightarrow> bool \<Rightarrow> string \<Rightarrow> unit prog" where
  "load env model_path weights_only device_name =
     bind (if device_name = ''tpu'' then
             (if \<not> XLA_AVAILABLE env then raise (RuntimeError ''XLA is not available'')
              else seq (assign (\<lambda>s. s\<lparr>using_tpu := True\<rparr>))
                  (seq (host env Xm_xla_device) (ret XlaDevice)))
           else ret (DeviceName device_name)) (\<lambda>dev.
     seq (assign (\<lambda>s. s\<lparr>device := Some dev\<rparr>))
    (bind get_self (\<lambda>s.
     bind (attr (model s) ''parameters'') (\<lambda>m.
     bind get_trace (\<lambda>t.
     seq (host env (Model_parameters m))
    (seq (if param_device env m t \<noteq> dev then host env (Model_to m (Some dev)) else ret ())
    (seq (host env (Torch_device (torch_device dev)))
    (bind (torch_load env model_path (torch_device dev)) (\<lambda>model_dict.
       if weights_only then host env (Model_load_state_dict m model_dict)
       else bind (lift (subscript model_dict ''state_dict'')) (\<lambda>sd.
              host env (Model_load_state_dict m sd)))))))))))"

subsection \<open>One epoch (lines 155-226)\<close>

text \<open>
  The inner loop over \<open>metrics_meter\<close> (lines 180-182 and 217-219): every meter is updated
  with the step's value for its name, and its average goes to \<open>monitor\<close>.
\<close>

fun update_meters ::
  "string list \<Rightarrow> (string \<times> scalar) list \<Rightarrow> int \<Rightarrow>
   (string \<times> AverageMeter) list \<times> (string \<times> running_avg) list \<Rightarrow>
   error + ((string \<times> AverageMeter) list \<times> (string \<times> running_avg) list)" where
  "update_meters [] step_metrics bs acc = Inr acc"
| "update_meters (m_m # ks) step_metrics bs (metrics_meter, monitor) =
     (case map_of metrics_meter m_m of
        None \<Rightarrow> Inl (KeyError m_m)
      | Some meter \<Rightarrow>
          (case map_of step_metrics m_m of
             None \<Rightarrow> Inl (KeyError m_m)
           | Some v \<Rightarrow>
               update_meters ks step_metrics bs
                 (AList.update m_m (meter_update meter v bs) metrics_meter,
                  AList.update m_m (meter_avg (meter_update meter v bs)) monitor)))"

text \<open>
  The locals of the batch loop: \<open>losses\<close>, \<open>metrics_meter\<close> (bound by the first batch,
  before it is read) and \<open>monitor\<close> (\<open>None\<close> while unbound). The progress bar only
  displays; it is left out.
\<close>

type_synonym loop_locals =
  "AverageMeter \<times> (string \<times> AverageMeter) list \<times> (string \<times> running_avg) list option"

primrec train_batches :: "env \<Rightarrow> loader \<Rightarrow> batch list \<Rightarrow> int \<Rightarrow> loop_locals \<Rightarrow> loop_locals prog" where
  "train_batches env data_loader [] = (\<lambda>b_idx locals. ret locals)"
| "train_batches env data_loader (data # rest) = (\<lambda>b_idx locals.
     case locals of (losses, metrics_meter, _) \<Rightarrow>
     seq (assign (\<lambda>s. s\<lparr>batch_index := b_idx\<rparr>))
    (seq (set_train_state env TRAIN_STEP_START)
    (bind (train_one_step env data) (\<lambda>(loss, step_metrics).
     seq (set_train_state env TRAIN_STEP_END)
    (bind (tensor_item env loss) (\<lambda>item.
     bind get_self (\<lambda>s.
     bind (lift (update_meters
             (map fst (if b_idx = 0 then map (\<lambda>(k, _). (k, [])) step_metrics else metrics_meter))
             step_metrics (ld_batch_size data_loader)
             (if b_idx = 0 then map (\<lambda>(k, _). (k, [])) step_metrics else metrics_meter, [])))
          (\<lambda>(metrics_meter, monitor).
     seq (assign (\<lambda>s. s\<lparr>current_train_step := current_train_step s + 1\<rparr>))
         (train_batches env data_loader rest (b_idx + 1)
            (meter_update losses (Times item (accumulation_steps s)) (ld_batch_size data_loader),
             metrics_meter, Some monitor))))))))))"

definition train_one_epoch :: "env \<Rightarrow> loader option \<Rightarrow> running_avg prog" where
  "train_one_epoch env data_loader =
     bind get_self (\<lambda>s.
     seq (if local_rank s \<noteq> - 1 then
            bind (attr (train_sampler s) ''set_epoch'') (\<lambda>sm.
              host env (Sampler_set_epoch sm (current_epoch s)))
          else ret ())
    (bind (attr (model s) ''train'') (\<lambda>m.
     seq (host env (Model_train m))
    (seq (if local_rank s \<noteq> - 1 then host env Dist_barrier else ret ())
    (seq (set_model_state TRAIN)
    (seq (if accumulation_steps s > 1 then
            bind (attr (optimizer s) ''zero_grad'') (\<lambda>opt. host env (Optimizer_zero_grad opt))
          else ret ())
    (bind (case data_loader of None \<Rightarrow> raise TypeError | Some dl \<Rightarrow> ret dl) (\<lambda>dl.
     bind (train_batches env dl (batches env dl) 0 ([], [], None)) (\<lambda>(losses, _, monitor).
     bind (case monitor of
             None \<Rightarrow> raise (UnboundLocalError ''monitor'')
           | Some mon \<Rightarrow> ret mon) (\<lambda>monitor.
     seq (update_metrics losses monitor)
         (ret (meter_avg losses))))))))))))"

primrec valid_batches :: "env \<Rightarrow> loader \<Rightarrow> batch list \<Rightarrow> int \<Rightarrow> loop_locals \<Rightarrow> loop_locals prog" where
  "valid_batches env data_loader [] = (\<lambda>b_idx locals. ret locals)"
| "valid_batches env data_loader (data # rest) = (\<lambda>b_idx locals.
     case locals of (losses, metrics_meter, _) \<Rightarrow>
     seq (set_train_state env VALID_STEP_START)
    (bind (validate_one_step env data) (\<lambda>(loss, step_metrics).
     bind get_self (\<lambda>s.
     bind (if local_rank s \<noteq> - 1 then
             seq (host env Dist_barrier)
            (seq (host env (Dist_all_gather loss)) (ret (GatherMean loss)))
           else ret loss) (\<lambda>loss.
     seq (set_train_state env VALID_STEP_END)
    (bind (tensor_item env loss) (\<lambda>item.
     bind (lift (update_meters
             (map fst (if b_idx = 0 then map (\<lambda>(k, _). (k, [])) step_metrics else metrics_meter))
             step_metrics (ld_batch_size data_loader)
             (if b_idx = 0 then map (\<lambda>(k, _). (k, [])) step_metrics else metrics_meter, [])))
          (\<lambda>(metrics_meter, monitor).
     seq (assign (\<lambda>s. s\<lparr>current_valid_step := current_valid_step s + 1\<rparr>))
         (valid_batches env data_loader rest (b_idx + 1)
            (meter_update losses item (ld_batch_size data_loader),
             metrics_meter, Some monitor))))))))))"

definition validate_one_epoch :: "env \<Rightarrow> loader option \<Rightarrow> running_avg prog" where
  "validate_one_epoch env data_loader =
     bind get_self (\<lambda>s.
     bind (attr (model s) ''eval'') (\<lambda>m.
     seq (host env (Model_eval m))
    (seq (set_model_state VALID)
    (bind (case data_loader of None \<Rightarrow> raise TypeError | Some dl \<Rightarrow> ret dl) (\<lambda>dl.
     bind (valid_batches env dl (batches env dl) 0 ([], [], None)) (\<lambda>(losses, _, monitor).
     bind (case monitor of
             None \<Rightarrow> raise (UnboundLocalError ''monitor'')
           | Some mon \<Rightarrow> ret mon) (\<lambda>monitor.
     seq (update_metrics losses monitor)
         (ret (meter_avg losses)))))))))"

subsection \<open>Initialisation and the epoch loop (lines 308-441)\<close>

text \<open>
  \<open>_init_tez\<close> is called by \<open>fit\<close> alone, after \<open>self.model.to\<close>, so \<open>self.model\<close>
  is not \<open>None\<close> where it is wrapped (lines 332-347).
\<close>

definition wrap_model :: "env \<Rightarrow> args \<Rightarrow> dataset \<Rightarrow> unit prog" where
  "wrap_model env args train_dataset =
     bind get_self (\<lambda>s.
       if local_rank s = - 1 then
         (if cuda_device_count env > 1 then
            bind (attr (model s) ''parameters'') (\<lambda>m.
              seq (host env (New_DataParallel m))
                  (assign (\<lambda>s. s\<lparr>model := Some (DataParallel m)\<rparr>)))
          else ret ())
       else
         seq (host env Dist_init_process_group)
        (bind (attr (model s) ''parameters'') (\<lambda>m.
         seq (host env (New_DistributedDataParallel m (local_rank s)))
        (seq (assign (\<lambda>s. s\<lparr>model := Some (DistributedDataParallel m (local_rank s))\<rparr>))
             (if train_sampler s = None then
                seq (host env (New_DistributedSampler train_dataset (args_train_shuffle args)))
                    (assign (\<lambda>s. s\<lparr>train_sampler :=
                       Some (DistributedSampler train_dataset (args_train_shuffle args))\<rparr>))
              else ret ())))))"

text \<open>
  The local \<open>n_jobs\<close> of \<open>_init_tez\<close> is bound only by line 327 (\<open>None\<close> stands for
  unbound); reading it unbound, as the argument \<open>num_workers\<close> of a loader, raises
  UnboundLocalError. Lines 349-357 and 358-367.
\<close>

definition make_train_loader ::
  "env \<Rightarrow> args \<Rightarrow> int option \<Rightarrow> dataset \<Rightarrow> sampler option \<Rightarrow> nat option \<Rightarrow> unit prog" where
  "make_train_loader env args n_jobs train_dataset train_sampler_arg train_collate_fn =
     bind get_self (\<lambda>s.
       if train_loader s = None then
         bind (case n_jobs of
                 None \<Rightarrow> raise (UnboundLocalError ''n_jobs'')
               | Some n \<Rightarrow> ret n) (\<lambda>num_workers.
           seq (host env (New_DataLoader
                  \<lparr>ld_dataset = train_dataset,
                   ld_batch_size = args_train_batch_size args,
                   ld_num_workers = num_workers,
                   ld_sampler = train_sampler_arg,
                   ld_shuffle = (if train_sampler_arg = None then args_train_shuffle args else False),
                   ld_collate_fn = train_collate_fn\<rparr>))
               (assign (\<lambda>s. s\<lparr>train_loader := Some
                  \<lparr>ld_dataset = train_dataset,
                   ld_batch_size = args_train_batch_size args,
                   ld_num_workers = num_workers,
                   ld_sampler = train_sampler_arg,
                   ld_shuffle = (if train_sampler_arg = None then args_train_shuffle args else False),
                   ld_collate_fn = train_collate_fn\<rparr>\<rparr>)))
       else ret ())"

definition make_valid_loader ::
  "env \<Rightarrow> args \<Rightarrow> int option \<Rightarrow> dataset option \<Rightarrow> sampler option \<Rightarrow> sampler option \<Rightarrow>
   nat option \<Rightarrow> unit prog" where
  "make_valid_loader env args n_jobs valid_dataset train_sampler_arg valid_sampler_arg
     valid_collate_fn =
     bind get_self (\<lambda>s.
       if valid_loader s = None then
         (case valid_dataset of
            None \<Rightarrow> ret ()
          | Some vd \<Rightarrow>
              bind (case n_jobs of
                      None \<Rightarrow> raise (UnboundLocalError ''n_jobs'')
                    | Some n \<Rightarrow> ret n) (\<lambda>num_workers.
                seq (host env (New_DataLoader
                       \<lparr>ld_dataset = vd,
                        ld_batch_size = args_valid_batch_size args,
                        ld_num_workers = num_workers,
                        ld_sampler = valid_sampler_arg,
                        ld_shuffle = (if train_sampler_arg = None then args_train_shuffle args else False),
                        ld_collate_fn = valid_collate_fn\<rparr>))
                    (assign (\<lambda>s. s\<lparr>valid_loader := Some
                       \<lparr>ld_dataset = vd,
                        ld_batch_size = args_valid_batch_size args,
                        ld_num_workers = num_workers,
                        ld_sampler = valid_sampler_arg,
                        ld_shuffle = (if train_sampler_arg = None then args_train_shuffle args else False),
                        ld_collate_fn = valid_collate_fn\<rparr>\<rparr>))))
       else ret ())"

definition init_tez ::
  "env \<Rightarrow> args \<Rightarrow> dataset \<Rightarrow> dataset option \<Rightarrow> sampler option \<Rightarrow> sampler option \<Rightarrow>
   nat list option \<Rightarrow> nat option \<Rightarrow> nat option \<Rightarrow> unit prog" where
  "init_tez env args train_dataset valid_dataset train_sampler_arg valid_sampler_arg
     callbacks train_collate_fn valid_collate_fn =
     (let callbacks = (case callbacks of None \<Rightarrow> [] | Some cbs \<Rightarrow> cbs);
          n_jobs = (if args_n_jobs args = - 1 then Some (cpu_count env) else None)
      in
     seq (assign (\<lambda>s. s\<lparr>train_sampler := train_sampler_arg, valid_sampler := valid_sampler_arg\<rparr>))
    (seq (assign (\<lambda>s. s\<lparr>accumulation_steps := args_accumulation_steps args,
                         clip_grad_norm := args_clip_grad_norm args,
                         device_count := Some (cuda_device_count env)\<rparr>))
    (seq (wrap_model env args train_dataset)
    (seq (make_train_loader env args n_jobs train_dataset train_sampler_arg train_collate_fn)
    (seq (make_valid_loader env args n_jobs valid_dataset train_sampler_arg valid_sampler_arg
            valid_collate_fn)
    (seq (assign (\<lambda>s. if optimizer s = None then s\<lparr>optimizer := fetch_optimizer env\<rparr> else s))
    (seq (assign (\<lambda>s. if scheduler s = None then s\<lparr>scheduler := fetch_scheduler env\<rparr> else s))
    (seq (assign (\<lambda>s. s\<lparr>fp16 := args_fp16 args\<rparr>))
    (seq (if args_fp16 args then
            bind get_trace (\<lambda>t.
              seq (host env New_GradScaler) (assign (\<lambda>s. s\<lparr>scaler := Some (length t)\<rparr>)))
          else ret ())
    (seq (assign (\<lambda>s. s\<lparr>priv_callback_runner := Some callbacks\<rparr>))
         (set_train_state env TRAIN_START)))))))))))"

text \<open>
  Truth value of \<open>self.valid_loader\<close> (line 426): \<open>None\<close> is false, and a loader, which
  has a length, is true when it yields at least one batch.
\<close>

definition loader_truthy :: "env \<Rightarrow> loader option \<Rightarrow> bool" where
  "loader_truthy env l = (case l of None \<Rightarrow> False | Some dl \<Rightarrow> batches env dl \<noteq> [])"

text \<open>The body of the epoch loop (lines 422-439); it returns whether the loop breaks.\<close>

definition one_epoch :: "env \<Rightarrow> bool prog" where
  "one_epoch env =
     seq (set_train_state env EPOCH_START)
    (seq (set_train_state env TRAIN_EPOCH_START)
    (bind get_self (\<lambda>s.
     bind (train_one_epoch env (train_loader s)) (\<lambda>_.
     seq (set_train_state env TRAIN_EPOCH_END)
    (seq (bind get_self (\<lambda>s.
            if loader_truthy env (valid_loader s) then
              seq (set_train_state env VALID_EPOCH_START)
             (bind get_self (\<lambda>s.
              bind (validate_one_epoch env (valid_loader s)) (\<lambda>_.
              set_train_state env VALID_EPOCH_END)))
            else ret ()))
    (seq (step_scheduler env ''epoch'')
    (seq (set_train_state env EPOCH_END)
    (bind get_self (\<lambda>s.
     bind (attr (priv_model_state s) ''value'') (\<lambda>st.
     ret (ModelState_value st = ''end'')))))))))))"

primrec fit_epochs :: "env \<Rightarrow> nat \<Rightarrow> unit prog" where
  "fit_epochs env 0 = ret ()"
| "fit_epochs env (Suc n) =
     bind (one_epoch env) (\<lambda>stop.
       if stop then ret ()
       else seq (assign (\<lambda>s. s\<lparr>current_epoch := current_epoch s + 1\<rparr>)) (fit_epochs env n))"

text \<open>
  The choice of the device (lines 394-408). On a TPU the configuration's \<open>fp16\<close> is set
  to \<open>False\<close>; the configuration, as changed, is what \<open>_init_tez\<close> receives. Building a
  device with \<open>torch.device\<close> is a call into the host, which raises for a name that is not
  a device; the device is assigned only when the call has returned.
\<close>

definition select_device :: "env \<Rightarrow> args \<Rightarrow> args prog" where
  "select_device env args =
     (if args_device args = ''tpu'' then
        (if \<not> XLA_AVAILABLE env then raise (RuntimeError ''XLA is not available'')
         else
           seq (assign (\<lambda>s. s\<lparr>using_tpu := True\<rparr>))
          (seq (host env Xm_xla_device)
          (seq (assign (\<lambda>s. s\<lparr>device := Some XlaDevice\<rparr>))
               (ret (args\<lparr>args_fp16 := False\<rparr>)))))
      else if take 4 (args_device args) = ''cuda'' then
        bind get_self (\<lambda>s.
          if local_rank s = - 1 then
            seq (host env (Torch_device (TorchDevice (args_device args))))
           (seq (assign (\<lambda>s. s\<lparr>device := Some (TorchDevice (args_device args))\<rparr>))
                (ret args))
          else
            seq (host env (Torch_device (TorchCuda (local_rank s))))
           (seq (assign (\<lambda>s. s\<lparr>device := Some (TorchCuda (local_rank s))\<rparr>))
                (ret args)))
      else
        seq (host env (Torch_device (TorchDevice ''cpu'')))
       (seq (assign (\<lambda>s. s\<lparr>device := Some (TorchDevice ''cpu'')\<rparr>)) (ret args)))"

definition fit ::
  "env \<Rightarrow> dataset \<Rightarrow> args \<Rightarrow> dataset option \<Rightarrow> sampler option \<Rightarrow> sampler option \<Rightarrow>
   nat list option \<Rightarrow> nat option \<Rightarrow> nat option \<Rightarrow> unit prog" where
  "fit env train_dataset args valid_dataset train_sampler_arg valid_sampler_arg
     callbacks train_collate_fn valid_collate_fn =
     bind (lift (LOCAL_RANK env)) (\<lambda>rank.
     seq (assign (\<lambda>s. s\<lparr>local_rank := rank\<rparr>))
    (bind (select_device env args) (\<lambda>args.
     bind get_self (\<lambda>s.
     bind (attr (model s) ''to'') (\<lambda>m.
     seq (host env (Model_to m (device s)))
    (seq (init_tez env args train_dataset valid_dataset train_sampler_arg valid_sampler_arg
            callbacks train_collate_fn valid_collate_fn)
    (seq (fit_epochs env (nat (args_epochs args)))
         (set_train_state env TRAIN_END))))))))"

section \<open>Verification\<close>

subsection \<open>Predicates on programs\<close>

text \<open>
  \<open>inv_err I E m\<close>: started in a world that satisfies \<open>I\<close>, the program \<open>m\<close> either
  returns in a world that satisfies \<open>I\<close> or raises \<open>e\<close> in a world that satisfies \<open>E e\<close>.
\<close>

definition inv_err :: "(world \<Rightarrow> bool) \<Rightarrow> (error \<Rightarrow> world \<Rightarrow> bool) \<Rightarrow> 'a prog \<Rightarrow> bool" where
  "inv_err I E m =
     (\<forall>w. I w \<longrightarrow> (case m w of (Inr x, w') \<Rightarrow> I w' | (Inl e, w') \<Rightarrow> E e w'))"

text \<open>
  No call into the host or the callback runner has raised (\<open>clean\<close>); the exception \<open>e\<close>
  is the program's own or the one raised by the last call, every earlier call having
  returned (\<open>propagated\<close>). A program is \<open>uncaught\<close> when it swallows no exception of a
  call and raises the exception of the call that failed, unchanged.
\<close>

definition clean :: "world \<Rightarrow> bool" where
  "clean w = list_all (\<lambda>ev. snd ev = None) (trace w)"

definition propagated :: "error \<Rightarrow> world \<Rightarrow> bool" where
  "propagated e w =
     (clean w \<or>
      (trace w \<noteq> [] \<and> snd (last (trace w)) = Some e \<and>
       list_all (\<lambda>ev. snd ev = None) (butlast (trace w))))"

definition uncaught :: "'a prog \<Rightarrow> bool" where
  "uncaught m = inv_err clean propagated m"

definition raises :: "'a prog \<Rightarrow> world \<Rightarrow> bool" where
  "raises m w = (\<exists>e. fst (m w) = Inl e)"



subsection \<open>Callbacks and observations of the trace\<close>

text \<open>
  Callbacks are not part of model.py. Where a property of \<open>fit\<close> depends on what they
  leave alone, it is stated for callbacks that read the object and write nothing but its
  model-lifecycle state, the one attribute that the epoch loop reads back (line 438).
\<close>

definition callbacks_frame :: "env \<Rightarrow> bool" where
  "callbacks_frame env =
     (\<forall>cbs v s. \<exists>st. snd (run_callbacks env cbs v s) = s\<lparr>priv_model_state := st\<rparr>)"

text \<open>
  \<open>same_setup s s'\<close>: the object \<open>s'\<close> differs from \<open>s\<close> at most in the attributes that
  training itself advances: the two state attributes, the batch index and the two step
  counters.
\<close>

definition same_setup :: "Model \<Rightarrow> Model \<Rightarrow> bool" where
  "same_setup s s' =
     (s'\<lparr>priv_model_state := priv_model_state s,
         priv_train_state := priv_train_state s, batch_index := batch_index s,
         current_train_step := current_train_step s,
         current_valid_step := current_valid_step s\<rparr> = s)"

text \<open>The training states handed to the callback runner, in order.\<close>

definition dispatch_of :: "event \<Rightarrow> TrainingState option" where
  "dispatch_of ev = (case fst ev of Callback_runner_call cbs v \<Rightarrow> Some v | _ \<Rightarrow> None)"

definition dispatched :: "event list \<Rightarrow> TrainingState list" where
  "dispatched t = List.map_filter dispatch_of t"

text \<open>
  Every call of \<open>train_one_epoch\<close> calls \<open>self.model.train()\<close> once, first of all on the
  model, and every call of \<open>validate_one_epoch\<close> calls \<open>self.model.eval()\<close> once; nothing
  else does. The epochs run are read off the trace by these calls.
\<close>

definition mark_of :: "event \<Rightarrow> ModelState option" where
  "mark_of ev = (case fst ev of Model_train m \<Rightarrow> Some TRAIN | Model_eval m \<Rightarrow> Some VALID | _ \<Rightarrow> None)"

definition epoch_marks :: "event list \<Rightarrow> ModelState list" where
  "epoch_marks t = List.map_filter mark_of t"

text \<open>
  \<open>quiet w w'\<close>: from \<open>w\<close> to \<open>w'\<close> the setup of the object is the same, the callback
  runner has not been invoked, no epoch has been started and no file has been written.
\<close>

definition quiet :: "world \<Rightarrow> world \<Rightarrow> bool" where
  "quiet w w' =
     (same_setup (self w) (self w') \<and> dispatched (trace w') = dispatched (trace w) \<and>
      epoch_marks (trace w') = epoch_marks (trace w) \<and> disk w' = disk w)"

text \<open>
  \<open>advance w w' ds ms\<close>: from \<open>w\<close> to \<open>w'\<close> the setup of the object is the same, the
  callback runner has been invoked with the training states \<open>ds\<close>, in this order, the
  epoch functions \<open>ms\<close> have been started and no file has been written.
\<close>

definition advance :: "world \<Rightarrow> world \<Rightarrow> TrainingState list \<Rightarrow> ModelState list \<Rightarrow> bool" where
  "advance w w' ds ms =
     (same_setup (self w) (self w') \<and> dispatched (trace w') = dispatched (trace w) @ ds \<and>
      epoch_marks (trace w') = epoch_marks (trace w) @ ms \<and> disk w' = disk w)"

text \<open>
  The calls that \<open>load\<close> makes (lines 292-306): \<open>xm.xla_device\<close>, \<open>parameters\<close> and \<open>to\<close>
  of the model, \<open>torch.device\<close>, \<open>torch.load\<close> and \<open>load_state_dict\<close> of the model.
\<close>

definition load_call :: "call \<Rightarrow> bool" where
  "load_call c =
     (case c of
        Xm_xla_device \<Rightarrow> True
      | Model_parameters m \<Rightarrow> True
      | Model_to m d \<Rightarrow> True
      | Torch_device d \<Rightarrow> True
      | Torch_load path d \<Rightarrow> True
      | Model_load_state_dict m v \<Rightarrow> True
      | _ \<Rightarrow> False)"



text \<open>
  In the host, a backward pass adds to the gradients and \<open>zero_grad\<close> clears them.
  \<open>batches_per_step g cs\<close> lists, for every optimizer step among the calls \<open>cs\<close>, how many
  backward passes the gradients hold at that step, \<open>g\<close> being the number they hold
  before \<open>cs\<close>.
\<close>

fun batches_per_step :: "nat \<Rightarrow> call list \<Rightarrow> nat list" where
  "batches_per_step g [] = []"
| "batches_per_step g (c # cs) =
     (case c of
        Backward loss \<Rightarrow> batches_per_step (Suc g) cs
      | Scaler_scale_backward sc loss \<Rightarrow> batches_per_step (Suc g) cs
      | Model_zero_grad m \<Rightarrow> batches_per_step 0 cs
      | Optimizer_zero_grad opt \<Rightarrow> batches_per_step 0 cs
      | Optimizer_step opt \<Rightarrow> g # batches_per_step g cs
      | Scaler_step sc opt \<Rightarrow> g # batches_per_step g cs
      | Xm_optimizer_step opt \<Rightarrow> g # batches_per_step g cs
      | _ \<Rightarrow> batches_per_step g cs)"

text \<open>
  \<open>gradients_held g cs\<close>: how many backward passes the gradients hold after the calls
  \<open>cs\<close>, \<open>g\<close> being the number they hold before.
\<close>

fun gradients_held :: "nat \<Rightarrow> call list \<Rightarrow> nat" where
  "gradients_held g [] = g"
| "gradients_held g (c # cs) =
     (case c of
        Backward loss \<Rightarrow> gradients_held (Suc g) cs
      | Scaler_scale_backward sc loss \<Rightarrow> gradients_held (Suc g) cs
      | Model_zero_grad m \<Rightarrow> gradients_held 0 cs
      | Optimizer_zero_grad opt \<Rightarrow> gradients_held 0 cs
      | _ \<Rightarrow> gradients_held g cs)"

text \<open>The losses that the calls \<open>cs\<close> hand to a backward pass, in order.\<close>

fun backward_losses :: "call list \<Rightarrow> tensor list" where
  "backward_losses [] = []"
| "backward_losses (c # cs) =
     (case c of
        Backward loss \<Rightarrow> loss # backward_losses cs
      | Scaler_scale_backward sc loss \<Rightarrow> loss # backward_losses cs
      | _ \<Rightarrow> backward_losses cs)"

text \<open>
  The training states that one pass of the epoch loop assigns, in program order
  (lines 422-437, 173-175 and 203-212), for \<open>nt\<close> train batches and, when the valid
  loader is true, \<open>nv\<close> valid batches.
\<close>

definition epoch_train_states :: "nat \<Rightarrow> nat option \<Rightarrow> TrainingState list" where
  "epoch_train_states nt nv =
     [EPOCH_START, TRAIN_EPOCH_START] @
     concat (replicate nt [TRAIN_STEP_START, TRAIN_STEP_END]) @
     [TRAIN_EPOCH_END] @
     (case nv of
        None \<Rightarrow> []
      | Some n \<Rightarrow>
          [VALID_EPOCH_START] @ concat (replicate n [VALID_STEP_START, VALID_STEP_END]) @
          [VALID_EPOCH_END]) @
     [EPOCH_END]"

text \<open>
  The number of batches of the object's train loader, and of its valid loader when that
  loader is true (\<open>None\<close> when \<open>self.valid_loader\<close> is \<open>None\<close> or yields no batch).
\<close>

definition n_train_batches :: "env \<Rightarrow> Model \<Rightarrow> nat" where
  "n_train_batches env s = (case train_loader s of None \<Rightarrow> 0 | Some dl \<Rightarrow> length (batches env dl))"

definition n_valid_batches :: "env \<Rightarrow> Model \<Rightarrow> nat option" where
  "n_valid_batches env s =
     (if loader_truthy env (valid_loader s)
      then Some (case valid_loader s of None \<Rightarrow> 0 | Some dl \<Rightarrow> length (batches env dl))
      else None)"

text \<open>The epoch functions that one pass of the epoch loop runs, as marked in the trace.\<close>

definition epoch_functions :: "nat option \<Rightarrow> ModelState list" where
  "epoch_functions nv = TRAIN # (case nv of None \<Rightarrow> [] | Some n \<Rightarrow> [VALID])"

subsection \<open>Example inputs\<close>

text \<open>
  A machine without XLA and with one GPU, a host whose calls all return, a train dataset
  (number 0) of two batches and any other dataset of one, callbacks that do nothing.
\<close>

definition env0 :: env where
  "env0 = \<lparr> XLA_AVAILABLE = False, LOCAL_RANK = Inr (- 1), cpu_count = 4, cuda_device_count = 1,
     host_fails = (\<lambda>_ _. None),
     batches = (\<lambda>l. if ld_dataset l = 0 then [[(''x'', 1)], [(''x'', 2)]] else [[(''x'', 3)]]),
     module_state_dict = (\<lambda>_ _. PDict [(''w'', PTensor 0)]),
     optimizer_state_dict = (\<lambda>_ _. PObj 1), scheduler_state_dict = (\<lambda>_ _. PObj 2),
     param_device = (\<lambda>_ _. TorchDevice ''cpu''),
     fetch_optimizer = Some 7, fetch_scheduler = None,
     run_callbacks = (\<lambda>cbs v s. (Inr (), s)) \<rparr>"

text \<open>
  The same machine with a callback that asks for the end of training at the end of the
  first epoch it sees, as early stopping does; and the same machine where only the train
  dataset has batches, so that a valid loader, when there is one, yields none.
\<close>

definition env_stop :: env where
  "env_stop = env0\<lparr> run_callbacks :=
     (\<lambda>cbs v s. (Inr (), if v = EPOCH_END then s\<lparr>priv_model_state := Some END\<rparr> else s)) \<rparr>"

definition env_empty_valid :: env where
  "env_empty_valid = env0\<lparr> batches :=
     (\<lambda>l. if ld_dataset l = 0 then [[(''x'', 1)], [(''x'', 2)]] else []) \<rparr>"

definition args0 :: args where
  "args0 = \<lparr> args_epochs = 2, args_train_batch_size = 8, args_valid_batch_size = 8,
     args_n_jobs = - 1, args_device = ''cpu'', args_accumulation_steps = 1,
     args_clip_grad_norm = None, args_train_shuffle = True, args_fp16 = False \<rparr>"

definition w0 :: world where
  "w0 = \<lparr> self = Model_init\<lparr>model := Some (Module 0)\<rparr>, metrics = metrics_init, trace = [],
     disk = Map.empty \<rparr>"

subsection \<open>Reasoning about programs\<close>

lemmas prog_defs = ret_def raise_def bind_def seq_def get_self_def get_trace_def get_metrics_def
  set_metrics_def assign_def lift_def attr_def host_def

subsection \<open>Normal returns\<close>

lemma ret_Inr [simp]: "ret x w = (Inr y, w') \<longleftrightarrow> y = x \<and> w' = w"
  by (auto simp: ret_def)

lemma raise_Inr [simp]: "raise e w = (Inr y, w') \<longleftrightarrow> False"
  by (auto simp: raise_def)

lemma bind_Inr [simp]:
  "bind m f w = (Inr y, w'') \<longleftrightarrow> (\<exists>x w'. m w = (Inr x, w') \<and> f x w' = (Inr y, w''))"
  by (auto simp: bind_def split: prod.splits sum.splits)

lemma seq_Inr [simp]:
  "seq m n w = (Inr y, w'') \<longleftrightarrow> (\<exists>w'. m w = (Inr (), w') \<and> n w' = (Inr y, w''))"
  by (auto simp: seq_def)

lemma get_self_Inr [simp]: "get_self w = (Inr s, w') \<longleftrightarrow> s = self w \<and> w' = w"
  by (auto simp: get_self_def)

lemma get_trace_Inr [simp]: "get_trace w = (Inr t, w') \<longleftrightarrow> t = trace w \<and> w' = w"
  by (auto simp: get_trace_def)

lemma get_metrics_Inr [simp]: "get_metrics w = (Inr v, w') \<longleftrightarrow> v = metrics w \<and> w' = w"
  by (auto simp: get_metrics_def)

lemma set_metrics_Inr [simp]: "set_metrics v w = (Inr u, w') \<longleftrightarrow> w' = w\<lparr>metrics := v\<rparr>"
  by (auto simp: set_metrics_def)

lemma assign_Inr [simp]: "assign f w = (Inr u, w') \<longleftrightarrow> w' = w\<lparr>self := f (self w)\<rparr>"
  by (auto simp: assign_def)

lemma lift_Inr [simp]: "lift r w = (Inr x, w') \<longleftrightarrow> r = Inr x \<and> w' = w"
  by (cases r) (auto simp: lift_def ret_def raise_def)

lemma attr_Inr [simp]: "attr v name w = (Inr x, w') \<longleftrightarrow> v = Some x \<and> w' = w"
  by (cases v) (auto simp: attr_def ret_def raise_def)

lemma host_Inr [simp]:
  "host env c w = (Inr u, w') \<longleftrightarrow>
     host_fails env (length (trace w)) c = None \<and> w' = w\<lparr>trace := trace w @ [(c, None)]\<rparr>"
  by (auto simp: host_def split: option.splits)

lemma torch_load_Inr [simp]:
  "torch_load env path d w = (Inr v, w') \<longleftrightarrow>
     host_fails env (length (trace w)) (Torch_load path d) = None \<and> disk w path = Some v \<and>
     w' = w\<lparr>trace := trace w @ [(Torch_load path d, None)]\<rparr>"
  by (auto simp: torch_load_def split: option.splits)

lemma callback_runner_call_Inr [simp]:
  "callback_runner_call env cbs v w = (Inr u, w') \<longleftrightarrow>
     fst (run_callbacks env cbs v (self w)) = Inr () \<and>
     w' = w\<lparr>self := snd (run_callbacks env cbs v (self w)),
            trace := trace w @ [(Callback_runner_call cbs v, None)]\<rparr>"
  by (auto simp: callback_runner_call_def split: prod.splits sum.splits)

subsection \<open>Invariants with an exceptional postcondition\<close>

lemma inv_errD:
  "inv_err I E m \<Longrightarrow> I w \<Longrightarrow> (case m w of (Inr x, w') \<Rightarrow> I w' | (Inl e, w') \<Rightarrow> E e w')"
  by (simp add: inv_err_def)

lemma inv_err_ret: "inv_err I E (ret x)"
  by (simp add: inv_err_def ret_def)

lemma inv_err_raise: "(\<And>w. I w \<Longrightarrow> E e w) \<Longrightarrow> inv_err I E (raise e)"
  by (simp add: inv_err_def raise_def)

lemma inv_err_get_self: "inv_err I E get_self"
  by (simp add: inv_err_def get_self_def)

lemma inv_err_get_trace: "inv_err I E get_trace"
  by (simp add: inv_err_def get_trace_def)

lemma inv_err_get_metrics: "inv_err I E get_metrics"
  by (simp add: inv_err_def get_metrics_def)

lemma inv_err_set_metrics:
  "(\<And>w. I w \<Longrightarrow> I (w\<lparr>metrics := v\<rparr>)) \<Longrightarrow> inv_err I E (set_metrics v)"
  by (simp add: inv_err_def set_metrics_def)

lemma inv_err_lift: "(\<And>w e. I w \<Longrightarrow> r = Inl e \<Longrightarrow> E e w) \<Longrightarrow> inv_err I E (lift r)"
  by (cases r) (simp_all add: inv_err_def lift_def ret_def raise_def)

lemma inv_err_attr:
  "(\<And>w. I w \<Longrightarrow> v = None \<Longrightarrow> E (AttributeError name) w) \<Longrightarrow> inv_err I E (attr v name)"
  by (cases v) (simp_all add: inv_err_def attr_def ret_def raise_def)

lemma inv_err_bind:
  assumes m: "inv_err I E m"
    and f: "\<And>x. \<exists>w w'. I w \<and> m w = (Inr x, w') \<Longrightarrow> inv_err I E (f x)"
  shows "inv_err I E (bind m f)"
  unfolding inv_err_def
proof (intro allI impI)
  fix w assume I: "I w"
  obtain r w1 where mw: "m w = (r, w1)" by (cases "m w")
  show "case bind m f w of (Inl e, w') \<Rightarrow> E e w' | (Inr x, w') \<Rightarrow> I w'"
  proof (cases r)
    case (Inl e)
    with inv_errD [OF m I] mw show ?thesis by (simp add: bind_def)
  next
    case (Inr x)
    with inv_errD [OF m I] mw have I1: "I w1" by simp
    have "inv_err I E (f x)" using f I mw Inr by blast
    from inv_errD [OF this I1] mw Inr show ?thesis by (simp add: bind_def)
  qed
qed

lemma inv_err_seq: "inv_err I E m \<Longrightarrow> inv_err I E n \<Longrightarrow> inv_err I E (seq m n)"
  by (simp add: seq_def inv_err_bind)

lemma inv_err_if:
  "(c \<Longrightarrow> inv_err I E a) \<Longrightarrow> (\<not> c \<Longrightarrow> inv_err I E b) \<Longrightarrow> inv_err I E (if c then a else b)"
  by simp

lemma inv_err_case_option:
  "(v = None \<Longrightarrow> inv_err I E a) \<Longrightarrow> (\<And>x. v = Some x \<Longrightarrow> inv_err I E (f x)) \<Longrightarrow>
   inv_err I E (case v of None \<Rightarrow> a | Some x \<Rightarrow> f x)"
  by (cases v) simp_all

lemma inv_err_case_prod:
  "(\<And>a b. p = (a, b) \<Longrightarrow> inv_err I E (f a b)) \<Longrightarrow> inv_err I E (case p of (a, b) \<Rightarrow> f a b)"
  by (cases p) simp

lemma inv_err_assign:
  "(\<And>w. I w \<Longrightarrow> I (w\<lparr>self := f (self w)\<rparr>)) \<Longrightarrow> inv_err I E (assign f)"
  by (simp add: inv_err_def assign_def)

lemma inv_err_host:
  "(\<And>w. I w \<Longrightarrow> host_fails env (length (trace w)) c = None \<Longrightarrow>
          I (w\<lparr>trace := trace w @ [(c, None)]\<rparr>)) \<Longrightarrow>
   (\<And>w e. I w \<Longrightarrow> host_fails env (length (trace w)) c = Some e \<Longrightarrow>
          E e (w\<lparr>trace := trace w @ [(c, Some e)]\<rparr>)) \<Longrightarrow>
   inv_err I E (host env c)"
  by (auto simp: inv_err_def host_def split: option.splits)

lemma inv_err_torch_load:
  "(\<And>w. I w \<Longrightarrow> I (w\<lparr>trace := trace w @ [(Torch_load path d, None)]\<rparr>)) \<Longrightarrow>
   (\<And>w e. I w \<Longrightarrow> E e (w\<lparr>trace := trace w @ [(Torch_load path d, Some e)]\<rparr>)) \<Longrightarrow>
   inv_err I E (torch_load env path d)"
  by (auto simp: inv_err_def torch_load_def split: option.splits)

lemma inv_err_callback_runner_call:
  assumes ok: "\<And>w s'. I w \<Longrightarrow> run_callbacks env cbs v (self w) = (Inr (), s') \<Longrightarrow>
      I (w\<lparr>self := s', trace := trace w @ [(Callback_runner_call cbs v, None)]\<rparr>)"
    and err: "\<And>w e s'. I w \<Longrightarrow> run_callbacks env cbs v (self w) = (Inl e, s') \<Longrightarrow>
      E e (w\<lparr>self := s', trace := trace w @ [(Callback_runner_call cbs v, Some e)]\<rparr>)"
  shows "inv_err I E (callback_runner_call env cbs v)"
  unfolding inv_err_def
proof (intro allI impI)
  fix w assume I: "I w"
  obtain r s' where rs: "run_callbacks env cbs v (self w) = (r, s')"
    by (cases "run_callbacks env cbs v (self w)")
  show "case callback_runner_call env cbs v w of (Inl e, w') \<Rightarrow> E e w' | (Inr x, w') \<Rightarrow> I w'"
  proof (cases r)
    case (Inl e)
    with err [OF I] rs show ?thesis by (simp add: callback_runner_call_def)
  next
    case (Inr u)
    with ok [OF I] rs show ?thesis by (simp add: callback_runner_call_def)
  qed
qed

lemma inv_err_foreach:
  "(\<And>x. x \<in> set xs \<Longrightarrow> inv_err I E (f x)) \<Longrightarrow> inv_err I E (foreach xs f)"
  by (induction xs) (simp_all add: inv_err_ret inv_err_seq)

lemmas inv_err_struct = inv_err_bind inv_err_seq inv_err_if inv_err_case_option inv_err_case_prod
  inv_err_ret inv_err_get_self inv_err_get_trace inv_err_get_metrics inv_err_foreach

lemmas inv_err_prims = inv_err_raise inv_err_lift inv_err_attr inv_err_assign inv_err_set_metrics
  inv_err_host
  inv_err_torch_load inv_err_callback_runner_call


subsection \<open>No failure is caught\<close>

lemmas uncaught_auto = clean_def propagated_def

lemma uncaught_torch_save: "inv_err clean propagated (torch_save env v path)"
  unfolding torch_save_def
  by (intro inv_err_struct inv_err_prims) (auto simp: clean_def propagated_def inv_err_def)

lemma uncaught_load: "inv_err clean propagated (load env path wo dev)"
  unfolding load_def
  by (intro inv_err_struct inv_err_prims) (auto simp: clean_def propagated_def)

lemma uncaught_set_train_state: "inv_err clean propagated (set_train_state env v)"
  unfolding set_train_state_def
  by (intro inv_err_struct inv_err_prims) (auto simp: uncaught_auto)

lemma uncaught_set_model_state: "inv_err clean propagated (set_model_state v)"
  unfolding set_model_state_def
  by (intro inv_err_struct inv_err_prims) (auto simp: uncaught_auto)

lemma uncaught_name_to_metric: "inv_err clean propagated (name_to_metric n)"
  unfolding name_to_metric_def Let_def
  by (intro inv_err_struct inv_err_prims) (auto simp: uncaught_auto)

lemma uncaught_step_scheduler: "inv_err clean propagated (step_scheduler env after)"
  unfolding step_scheduler_def
  by (intro inv_err_struct inv_err_prims uncaught_name_to_metric) (auto simp: uncaught_auto)

lemma uncaught_model_fn: "inv_err clean propagated (model_fn env data)"
  unfolding model_fn_def forward_def tensor_mean_def
  by (intro inv_err_struct inv_err_prims) (auto simp: uncaught_auto)

lemma uncaught_train_one_step: "inv_err clean propagated (train_one_step env data)"
  unfolding train_one_step_def tensor_div_def py_mod_def
  by (intro inv_err_struct inv_err_prims uncaught_model_fn uncaught_step_scheduler)
     (auto simp: uncaught_auto)

lemma uncaught_validate_one_step: "inv_err clean propagated (validate_one_step env data)"
  unfolding validate_one_step_def tensor_mean_def
  by (intro inv_err_struct inv_err_prims uncaught_model_fn) (auto simp: uncaught_auto)

lemma uncaught_update_metrics: "inv_err clean propagated (update_metrics losses monitor)"
  unfolding update_metrics_def
  by (intro inv_err_struct inv_err_prims) (auto simp: uncaught_auto)

lemma uncaught_train_batches: "inv_err clean propagated (train_batches env dl bs i locals)"
proof (induction bs arbitrary: i locals)
  case Nil
  show ?case by (simp add: inv_err_ret)
next
  case (Cons b bs)
  show ?case
    unfolding train_batches.simps tensor_item_def
    by (intro inv_err_struct inv_err_prims uncaught_set_train_state uncaught_train_one_step Cons.IH)
       (auto simp: uncaught_auto)
qed

lemma uncaught_train_one_epoch: "inv_err clean propagated (train_one_epoch env dl)"
  unfolding train_one_epoch_def
  by (intro inv_err_struct inv_err_prims uncaught_set_model_state uncaught_train_batches
        uncaught_update_metrics)
     (auto simp: uncaught_auto)

lemma uncaught_valid_batches: "inv_err clean propagated (valid_batches env dl bs i locals)"
proof (induction bs arbitrary: i locals)
  case Nil
  show ?case by (simp add: inv_err_ret)
next
  case (Cons b bs)
  show ?case
    unfolding valid_batches.simps tensor_item_def
    by (intro inv_err_struct inv_err_prims uncaught_set_train_state uncaught_validate_one_step Cons.IH)
       (auto simp: uncaught_auto)
qed

lemma uncaught_validate_one_epoch: "inv_err clean propagated (validate_one_epoch env dl)"
  unfolding validate_one_epoch_def
  by (intro inv_err_struct inv_err_prims uncaught_set_model_state uncaught_valid_batches
        uncaught_update_metrics)
     (auto simp: uncaught_auto)

lemma uncaught_wrap_model: "inv_err clean propagated (wrap_model env args td)"
  unfolding wrap_model_def
  by (intro inv_err_struct inv_err_prims) (auto simp: uncaught_auto)

lemma uncaught_make_train_loader:
  "inv_err clean propagated (make_train_loader env args n_jobs td ts tc)"
  unfolding make_train_loader_def
  by (intro inv_err_struct inv_err_prims) (auto simp: uncaught_auto)

lemma uncaught_make_valid_loader:
  "inv_err clean propagated (make_valid_loader env args n_jobs vd ts vs vc)"
  unfolding make_valid_loader_def
  by (intro inv_err_struct inv_err_prims) (auto simp: uncaught_auto)

lemma uncaught_init_tez: "inv_err clean propagated (init_tez env args td vd ts vs cbs tc vc)"
  unfolding init_tez_def Let_def
  by (intro inv_err_struct inv_err_prims uncaught_set_train_state uncaught_wrap_model
        uncaught_make_train_loader uncaught_make_valid_loader)
     (auto simp: uncaught_auto)

lemma uncaught_select_device: "inv_err clean propagated (select_device env args)"
  unfolding select_device_def
  by (intro inv_err_struct inv_err_prims) (auto simp: uncaught_auto)

lemma uncaught_one_epoch: "inv_err clean propagated (one_epoch env)"
  unfolding one_epoch_def
  by (intro inv_err_struct inv_err_prims uncaught_set_train_state uncaught_train_one_epoch
        uncaught_validate_one_epoch uncaught_step_scheduler)
     (auto simp: uncaught_auto)

lemma uncaught_fit_epochs: "inv_err clean propagated (fit_epochs env n)"
proof (induction n)
  case 0
  show ?case by (simp add: inv_err_ret)
next
  case (Suc n)
  show ?case
    unfolding fit_epochs.simps
    by (intro inv_err_struct inv_err_prims uncaught_one_epoch Suc.IH) (auto simp: uncaught_auto)
qed

lemma uncaught_fit: "inv_err clean propagated (fit env td args vd ts vs cbs tc vc)"
  unfolding fit_def
  by (intro inv_err_struct inv_err_prims uncaught_init_tez uncaught_fit_epochs uncaught_set_train_state
        uncaught_select_device)
     (auto simp: uncaught_auto)


subsection \<open>Checkpoints\<close>

lemma save_full:
  assumes "save env path False w = (Inr (), w')"
  shows "\<exists>m. model (self w) = Some m \<and>
     disk w' = (disk w)(path \<mapsto> PDict
       [(''state_dict'', module_state_dict env m (trace w)),
        (''optimizer'', case optimizer (self w) of None \<Rightarrow> PNone
            | Some opt \<Rightarrow> optimizer_state_dict env opt (trace w @ [(Model_state_dict m, None)])),
        (''scheduler'', case scheduler (self w) of None \<Rightarrow> PNone
            | Some sch \<Rightarrow> scheduler_state_dict env sch
                (trace w @ [(Model_state_dict m, None)] @
                 (case optimizer (self w) of None \<Rightarrow> []
                  | Some opt \<Rightarrow> [(Optimizer_state_dict opt, None)]))),
        (''epoch'', PInt (current_epoch (self w))),
        (''fp16'', PBool (fp16 (self w)))])"
  using assms
  by (auto simp: save_def model_state_dict_def torch_save_def xm_save_def Let_def
      split: option.splits if_splits)

lemma save_weights:
  assumes "save env path True w = (Inr (), w')"
  shows "\<exists>m. model (self w) = Some m \<and>
     disk w' = (disk w)(path \<mapsto> module_state_dict env m (trace w))"
  using assms
  by (auto simp: save_def model_state_dict_def torch_save_def xm_save_def Let_def
      split: option.splits if_splits)

lemma save_returns:
  assumes "model (self w) \<noteq> None" "\<forall>n c. host_fails env n c = None"
  shows "fst (save env path wo w) = Inr ()"
  using assms
  by (cases "optimizer (self w)"; cases "scheduler (self w)")
     (auto simp: save_def model_state_dict_def torch_save_def xm_save_def Let_def prog_defs)

text \<open>
  C2: a call of \<open>save\<close> with \<open>weights_only=False\<close> that returns has written, under the
  path, one mapping with exactly the keys "state_dict" (the model's weights), "optimizer"
  (the optimizer's state, or None without an optimizer), "scheduler" (likewise), "epoch"
  (the current epoch) and "fp16" (the flag), in this order; with \<open>weights_only=True\<close> it
  has written the model's weight mapping itself. And \<open>save\<close> does return, in both modes
  and on every object that has a model, with or without optimizer and scheduler, on a
  TPU or not, when no call into the host raises.
\<close>

theorem save_persisted_record:
  "(save env path False w = (Inr (), w') \<longrightarrow>
      (\<exists>m. model (self w) = Some m \<and>
         disk w' = (disk w)(path \<mapsto> PDict
           [(''state_dict'', module_state_dict env m (trace w)),
            (''optimizer'', case optimizer (self w) of None \<Rightarrow> PNone
                | Some opt \<Rightarrow> optimizer_state_dict env opt (trace w @ [(Model_state_dict m, None)])),
            (''scheduler'', case scheduler (self w) of None \<Rightarrow> PNone
                | Some sch \<Rightarrow> scheduler_state_dict env sch
                    (trace w @ [(Model_state_dict m, None)] @
                     (case optimizer (self w) of None \<Rightarrow> []
                      | Some opt \<Rightarrow> [(Optimizer_state_dict opt, None)]))),
            (''epoch'', PInt (current_epoch (self w))),
            (''fp16'', PBool (fp16 (self w)))]))) \<and>
   (save env path True w = (Inr (), w') \<longrightarrow>
      (\<exists>m. model (self w) = Some m \<and>
         disk w' = (disk w)(path \<mapsto> module_state_dict env m (trace w)))) \<and>
   (model (self w) \<noteq> None \<and> (\<forall>n c. host_fails env n c = None) \<longrightarrow>
      fst (save env path wo w) = Inr ())"
  using save_full [of env path w w'] save_weights [of env path w w']
    save_returns [of w env path wo] by blast

theorem save_persisted_record_witness:
  "model (self (w0\<lparr>self := (self w0)\<lparr>optimizer := Some 7, scheduler := Some 3,
      current_epoch := 3, fp16 := True, using_tpu := True,
      priv_callback_runner := Some [1]\<rparr>\<rparr>)) \<noteq> None \<and>
   (\<forall>n c. host_fails env0 n c = None) \<and>
   save env0 ''ckpt'' False
     (w0\<lparr>self := (self w0)\<lparr>optimizer := Some 7, scheduler := Some 3,
        current_epoch := 3, fp16 := True, using_tpu := True,
        priv_callback_runner := Some [1]\<rparr>\<rparr>) =
     (Inr (), w0\<lparr>self := (self w0)\<lparr>optimizer := Some 7, scheduler := Some 3,
                    current_epoch := 3, fp16 := True, using_tpu := True,
                    priv_callback_runner := Some [1]\<rparr>,
                  trace := [(Model_state_dict (Module 0), None),
                            (Optimizer_state_dict 7, None), (Scheduler_state_dict 3, None),
                            (Xm_save (PDict [(''state_dict'', PDict [(''w'', PTensor 0)]),
                               (''optimizer'', PObj 1), (''scheduler'', PObj 2),
                               (''epoch'', PInt 3), (''fp16'', PBool True)]) ''ckpt'', None)],
                  disk := [''ckpt'' \<mapsto> PDict [(''state_dict'', PDict [(''w'', PTensor 0)]),
                               (''optimizer'', PObj 1), (''scheduler'', PObj 2),
                               (''epoch'', PInt 3), (''fp16'', PBool True)]]\<rparr>) \<and>
   save env0 ''ckpt'' False w0 =
     (Inr (), w0\<lparr>trace := [(Model_state_dict (Module 0), None),
                            (Torch_save (PDict [(''state_dict'', PDict [(''w'', PTensor 0)]),
                               (''optimizer'', PNone), (''scheduler'', PNone),
                               (''epoch'', PInt 0), (''fp16'', PBool False)]) ''ckpt'', None)],
                  disk := [''ckpt'' \<mapsto> PDict [(''state_dict'', PDict [(''w'', PTensor 0)]),
                               (''optimizer'', PNone), (''scheduler'', PNone),
                               (''epoch'', PInt 0), (''fp16'', PBool False)]]\<rparr>) \<and>
   save env0 ''weights'' True w0 =
     (Inr (), w0\<lparr>trace := [(Model_state_dict (Module 0), None),
                            (Torch_save (PDict [(''w'', PTensor 0)]) ''weights'', None)],
                  disk := [''weights'' \<mapsto> PDict [(''w'', PTensor 0)]]\<rparr>)"
  using save_persisted_record [of env0 "''ckpt''"
      "w0\<lparr>self := (self w0)\<lparr>optimizer := Some 7, scheduler := Some 3,
        current_epoch := 3, fp16 := True, using_tpu := True,
        priv_callback_runner := Some [1]\<rparr>\<rparr>"
      "snd (save env0 ''ckpt'' False
        (w0\<lparr>self := (self w0)\<lparr>optimizer := Some 7, scheduler := Some 3,
           current_epoch := 3, fp16 := True, using_tpu := True,
           priv_callback_runner := Some [1]\<rparr>\<rparr>))" False]
  by (simp add: save_def model_state_dict_def torch_save_def xm_save_def prog_defs env0_def
      w0_def Model_init_def Let_def)


lemma save_checkpoint_state_dict:
  assumes "save env path False wa = (Inr (), wb)"
  shows "\<exists>m0 rest. model (self wa) = Some m0 \<and>
     disk wb path = Some (PDict ((''state_dict'', module_state_dict env m0 (trace wa)) # rest))"
  using save_full [OF assms] by auto

lemma load_frame:
  "(self (snd (load env path wo dev w)))\<lparr>using_tpu := using_tpu (self w), device := device (self w)\<rparr>
     = self w"
proof -
  define I where "I = (\<lambda>w'::world.
    (self w')\<lparr>using_tpu := using_tpu (self w), device := device (self w)\<rparr> = self w)"
  have "inv_err I (\<lambda>_. I) (load env path wo dev)"
    unfolding load_def
    by (intro inv_err_struct inv_err_prims) (auto simp: I_def)
  moreover have "I w"
    unfolding I_def by simp
  ultimately have "I (snd (load env path wo dev w))"
    by (auto dest!: inv_errD split: prod.splits sum.splits)
  then show ?thesis
    by (simp add: I_def)
qed

lemma load_checkpoint_ok:
  assumes "disk w path = Some (PDict ((''state_dict'', sd) # rest))"
    and "load env path False dev w = (Inr (), w')"
  shows "\<exists>m. model (self w) = Some m \<and> last (trace w') = (Model_load_state_dict m sd, None)"
  using assms(2) assms(1)
  by (auto simp: load_def split: if_splits)

lemma load_checkpoint_events:
  assumes "disk w path = Some (PDict ((''state_dict'', sd) # rest))"
  shows "\<forall>m v x. (Model_load_state_dict m v, x)
            \<in> set (drop (length (trace w)) (trace (snd (load env path False dev w)))) \<longrightarrow> v = sd"
proof -
  define I where "I = (\<lambda>w'::world. disk w' = disk w \<and> length (trace w) \<le> length (trace w') \<and>
      (\<forall>m v x. (Model_load_state_dict m v, x) \<in> set (drop (length (trace w)) (trace w'))
         \<longrightarrow> v = sd))"
  have "inv_err I (\<lambda>_. I) (load env path False dev)"
    unfolding load_def
    apply (intro inv_err_struct inv_err_prims)
    apply (insert assms)
    apply (auto simp: I_def)
    done
  moreover have "I w"
    unfolding I_def by simp
  ultimately have "I (snd (load env path False dev w))"
    by (auto dest!: inv_errD split: prod.splits sum.splits)
  then show ?thesis
    by (simp add: I_def)
qed

lemma load_only_load_calls:
  "disk (snd (load env path wo dev w)) = disk w \<and>
   metrics (snd (load env path wo dev w)) = metrics w \<and>
   list_all (\<lambda>ev. load_call (fst ev))
     (drop (length (trace w)) (trace (snd (load env path wo dev w))))"
proof -
  define I where "I = (\<lambda>w'::world. disk w' = disk w \<and> metrics w' = metrics w \<and>
      length (trace w) \<le> length (trace w') \<and>
      list_all (\<lambda>ev. load_call (fst ev)) (drop (length (trace w)) (trace w')))"
  have "inv_err I (\<lambda>_. I) (load env path wo dev)"
    unfolding load_def
    by (intro inv_err_struct inv_err_prims) (auto simp: I_def load_call_def)
  moreover have "I w"
    unfolding I_def by simp
  ultimately have "I (snd (load env path wo dev w))"
    by (auto dest!: inv_errD split: prod.splits sum.splits)
  then show ?thesis
    by (simp add: I_def)
qed

lemma load_checkpoint_trace:
  assumes "disk w path = Some (PDict ((''state_dict'', sd) # rest))"
    and "load env path False dev w = (Inr (), w')"
  shows "\<exists>m. model (self w) = Some m \<and>
     trace w' = trace w @
       (if dev = ''tpu'' then [(Xm_xla_device, None)] else []) @
       [(Model_parameters m, None)] @
       (if param_device env m (trace w @ (if dev = ''tpu'' then [(Xm_xla_device, None)] else []))
           \<noteq> (if dev = ''tpu'' then XlaDevice else DeviceName dev)
        then [(Model_to m (Some (if dev = ''tpu'' then XlaDevice else DeviceName dev)), None)]
        else []) @
       [(Torch_device (torch_device (if dev = ''tpu'' then XlaDevice else DeviceName dev)), None),
        (Torch_load path (torch_device (if dev = ''tpu'' then XlaDevice else DeviceName dev)), None),
        (Model_load_state_dict m sd, None)]"
proof (cases "dev = ''tpu''")
  case True
  with assms(2) assms(1) show ?thesis
    apply (simp add: load_def split: if_splits)
    apply (elim exE conjE)
    subgoal for x by (intro exI [of _ x]) (auto dest: arg_cong [where f = trace])
    done
next
  case False
  with assms(2) assms(1) show ?thesis
    apply (simp add: load_def split: if_splits)
    apply (elim exE conjE)
    subgoal for x by (intro exI [of _ x]) (auto dest: arg_cong [where f = trace])
    done
qed

text \<open>
  C9: let \<open>save\<close> with \<open>weights_only=False\<close> have written a checkpoint, and let \<open>load\<close>
  with \<open>weights_only=False\<close> run later, on any object, while the file still holds that
  checkpoint. Then \<open>load\<close> changes no attribute of the object but \<open>device\<close> and
  \<open>using_tpu\<close>: the optimizer, the scheduler, the epoch counter and the fp16 flag keep
  the values they had, whatever the checkpoint stores; it writes no file and leaves the
  metrics alone. Whether it returns or raises, the calls it makes are calls of
  \<open>xm.xla_device\<close>, the model's \<open>parameters\<close> and \<open>to\<close>, \<open>torch.device\<close>, \<open>torch.load\<close> and
  the model's \<open>load_state_dict\<close> only: no call reaches the optimizer or the scheduler.
  The only state that \<open>load\<close> hands to the model is the checkpoint's "state_dict" entry,
  and when \<open>load\<close> returns, handing it over was its last call, the calls before it being
  exactly those that place the model and read the file.
\<close>

theorem load_restores_only_weights:
  "save env path False wa = (Inr (), wb) \<and> disk w path = disk wb path \<longrightarrow>
     (self (snd (load env' path False dev w)))
        \<lparr>using_tpu := using_tpu (self w), device := device (self w)\<rparr> = self w \<and>
     optimizer (self (snd (load env' path False dev w))) = optimizer (self w) \<and>
     scheduler (self (snd (load env' path False dev w))) = scheduler (self w) \<and>
     current_epoch (self (snd (load env' path False dev w))) = current_epoch (self w) \<and>
     fp16 (self (snd (load env' path False dev w))) = fp16 (self w) \<and>
     disk (snd (load env' path False dev w)) = disk w \<and>
     metrics (snd (load env' path False dev w)) = metrics w \<and>
     list_all (\<lambda>ev. load_call (fst ev))
       (drop (length (trace w)) (trace (snd (load env' path False dev w)))) \<and>
     (\<exists>m0. model (self wa) = Some m0 \<and>
        (\<forall>m v x. (Model_load_state_dict m v, x)
             \<in> set (drop (length (trace w)) (trace (snd (load env' path False dev w))))
           \<longrightarrow> v = module_state_dict env m0 (trace wa)) \<and>
        (fst (load env' path False dev w) = Inr () \<longrightarrow>
           (\<exists>m. model (self w) = Some m \<and>
              last (trace (snd (load env' path False dev w))) =
                (Model_load_state_dict m (module_state_dict env m0 (trace wa)), None) \<and>
              trace (snd (load env' path False dev w)) = trace w @
                (if dev = ''tpu'' then [(Xm_xla_device, None)] else []) @
                [(Model_parameters m, None)] @
                (if param_device env' m
                      (trace w @ (if dev = ''tpu'' then [(Xm_xla_device, None)] else []))
                    \<noteq> (if dev = ''tpu'' then XlaDevice else DeviceName dev)
                 then [(Model_to m (Some (if dev = ''tpu'' then XlaDevice else DeviceName dev)),
                        None)]
                 else []) @
                [(Torch_device (torch_device (if dev = ''tpu'' then XlaDevice else DeviceName dev)),
                  None),
                 (Torch_load path (torch_device (if dev = ''tpu'' then XlaDevice else DeviceName dev)),
                  None),
                 (Model_load_state_dict m (module_state_dict env m0 (trace wa)), None)])))"
proof (intro impI, elim conjE)
  assume sv: "save env path False wa = (Inr (), wb)" and dk: "disk w path = disk wb path"
  let ?w' = "snd (load env' path False dev w)"
  let ?d = "if dev = ''tpu'' then XlaDevice else DeviceName dev"
  from save_checkpoint_state_dict [OF sv] obtain m0 rest where
    m0: "model (self wa) = Some m0" and
    d1: "disk wb path = Some (PDict ((''state_dict'', module_state_dict env m0 (trace wa)) # rest))"
    by blast
  from d1 dk have d: "disk w path = Some (PDict ((''state_dict'', module_state_dict env m0 (trace wa)) # rest))"
    by simp
  have fr: "(self ?w')\<lparr>using_tpu := using_tpu (self w), device := device (self w)\<rparr> = self w"
    by (rule load_frame)
  have f1: "optimizer (self ?w') = optimizer (self w)"
    using arg_cong [OF fr, of optimizer] by simp
  have f2: "scheduler (self ?w') = scheduler (self w)"
    using arg_cong [OF fr, of scheduler] by simp
  have f3: "current_epoch (self ?w') = current_epoch (self w)"
    using arg_cong [OF fr, of current_epoch] by simp
  have f4: "fp16 (self ?w') = fp16 (self w)"
    using arg_cong [OF fr, of fp16] by simp
  note f5 = load_only_load_calls [of env' path False dev w]
  have ok: "fst (load env' path False dev w) = Inr () \<longrightarrow>
           (\<exists>m. model (self w) = Some m \<and>
              last (trace ?w') = (Model_load_state_dict m (module_state_dict env m0 (trace wa)), None) \<and>
              trace ?w' = trace w @
                (if dev = ''tpu'' then [(Xm_xla_device, None)] else []) @
                [(Model_parameters m, None)] @
                (if param_device env' m
                      (trace w @ (if dev = ''tpu'' then [(Xm_xla_device, None)] else []))
                    \<noteq> ?d
                 then [(Model_to m (Some ?d), None)]
                 else []) @
                [(Torch_device (torch_device ?d), None),
                 (Torch_load path (torch_device ?d), None),
                 (Model_load_state_dict m (module_state_dict env m0 (trace wa)), None)])"
  proof
    assume "fst (load env' path False dev w) = Inr ()"
    then have l: "load env' path False dev w = (Inr (), ?w')"
      by (simp add: prod_eq_iff)
    from load_checkpoint_ok [OF d l] load_checkpoint_trace [OF d l]
    show "\<exists>m. model (self w) = Some m \<and>
              last (trace ?w') = (Model_load_state_dict m (module_state_dict env m0 (trace wa)), None) \<and>
              trace ?w' = trace w @
                (if dev = ''tpu'' then [(Xm_xla_device, None)] else []) @
                [(Model_parameters m, None)] @
                (if param_device env' m
                      (trace w @ (if dev = ''tpu'' then [(Xm_xla_device, None)] else []))
                    \<noteq> ?d
                 then [(Model_to m (Some ?d), None)]
                 else []) @
                [(Torch_device (torch_device ?d), None),
                 (Torch_load path (torch_device ?d), None),
                 (Model_load_state_dict m (module_state_dict env m0 (trace wa)), None)]"
      by auto
  qed
  from fr f1 f2 f3 f4 f5 m0 load_checkpoint_events [OF d, of env' dev] ok
  show "(self ?w')\<lparr>using_tpu := using_tpu (self w), device := device (self w)\<rparr> = self w \<and>
     optimizer (self ?w') = optimizer (self w) \<and>
     scheduler (self ?w') = scheduler (self w) \<and>
     current_epoch (self ?w') = current_epoch (self w) \<and>
     fp16 (self ?w') = fp16 (self w) \<and>
     disk ?w' = disk w \<and>
     metrics ?w' = metrics w \<and>
     list_all (\<lambda>ev. load_call (fst ev)) (drop (length (trace w)) (trace ?w')) \<and>
     (\<exists>m0. model (self wa) = Some m0 \<and>
        (\<forall>m v x. (Model_load_state_dict m v, x)
             \<in> set (drop (length (trace w)) (trace ?w'))
           \<longrightarrow> v = module_state_dict env m0 (trace wa)) \<and>
        (fst (load env' path False dev w) = Inr () \<longrightarrow>
           (\<exists>m. model (self w) = Some m \<and>
              last (trace ?w') =
                (Model_load_state_dict m (module_state_dict env m0 (trace wa)), None) \<and>
              trace ?w' = trace w @
                (if dev = ''tpu'' then [(Xm_xla_device, None)] else []) @
                [(Model_parameters m, None)] @
                (if param_device env' m
                      (trace w @ (if dev = ''tpu'' then [(Xm_xla_device, None)] else []))
                    \<noteq> ?d
                 then [(Model_to m (Some ?d), None)]
                 else []) @
                [(Torch_device (torch_device ?d), None),
                 (Torch_load path (torch_device ?d), None),
                 (Model_load_state_dict m (module_state_dict env m0 (trace wa)), None)])))"
    by blast
qed

theorem load_restores_only_weights_witness:
  "fst (save env0 ''ckpt'' False
          (w0\<lparr>self := (self w0)\<lparr>optimizer := Some 7, current_epoch := 3, fp16 := True\<rparr>\<rparr>)) = Inr () \<and>
   fst (load env0 ''ckpt'' False ''cpu''
          (w0\<lparr>disk := disk (snd (save env0 ''ckpt'' False
             (w0\<lparr>self := (self w0)\<lparr>optimizer := Some 7, current_epoch := 3, fp16 := True\<rparr>\<rparr>)))\<rparr>))
     = Inr () \<and>
   optimizer (self (snd (load env0 ''ckpt'' False ''cpu''
          (w0\<lparr>disk := disk (snd (save env0 ''ckpt'' False
             (w0\<lparr>self := (self w0)\<lparr>optimizer := Some 7, current_epoch := 3, fp16 := True\<rparr>\<rparr>)))\<rparr>))))
     = None \<and>
   current_epoch (self (snd (load env0 ''ckpt'' False ''cpu''
          (w0\<lparr>disk := disk (snd (save env0 ''ckpt'' False
             (w0\<lparr>self := (self w0)\<lparr>optimizer := Some 7, current_epoch := 3, fp16 := True\<rparr>\<rparr>)))\<rparr>))))
     = 0 \<and>
   \<not> fp16 (self (snd (load env0 ''ckpt'' False ''cpu''
          (w0\<lparr>disk := disk (snd (save env0 ''ckpt'' False
             (w0\<lparr>self := (self w0)\<lparr>optimizer := Some 7, current_epoch := 3, fp16 := True\<rparr>\<rparr>)))\<rparr>)))) \<and>
   last (trace (snd (load env0 ''ckpt'' False ''cpu''
          (w0\<lparr>disk := disk (snd (save env0 ''ckpt'' False
             (w0\<lparr>self := (self w0)\<lparr>optimizer := Some 7, current_epoch := 3, fp16 := True\<rparr>\<rparr>)))\<rparr>))))
     = (Model_load_state_dict (Module 0) (PDict [(''w'', PTensor 0)]), None)"
proof -
  let ?wt = "w0\<lparr>self := (self w0)\<lparr>optimizer := Some 7, current_epoch := 3, fp16 := True\<rparr>\<rparr>"
  let ?ws = "snd (save env0 ''ckpt'' False ?wt)"
  let ?wl = "w0\<lparr>disk := disk ?ws\<rparr>"
  have s: "fst (save env0 ''ckpt'' False ?wt) = Inr ()"
    by code_simp
  then have "save env0 ''ckpt'' False ?wt = (Inr (), ?ws)"
    by (simp add: prod_eq_iff)
  moreover have "disk ?wl ''ckpt'' = disk ?ws ''ckpt''"
    by simp
  moreover have l: "fst (load env0 ''ckpt'' False ''cpu'' ?wl) = Inr ()"
    by code_simp
  ultimately show ?thesis
    using s load_restores_only_weights [where env = env0 and path = "''ckpt''" and wa = ?wt and wb = ?ws and w = ?wl and env' = env0 and dev = "''cpu''"]
    by (auto simp: w0_def Model_init_def env0_def)
qed


subsection \<open>Metrics\<close>




































subsection \<open>The accelerator guard\<close>

lemma load_tpu_unavailable:
  "\<not> XLA_AVAILABLE env \<Longrightarrow>
   load env path wo ''tpu'' w = (Inl (RuntimeError ''XLA is not available''), w)"
  by (simp add: load_def prog_defs)

lemma fit_tpu_unavailable:
  "\<not> XLA_AVAILABLE env \<Longrightarrow> args_device args = ''tpu'' \<Longrightarrow> LOCAL_RANK env = Inr r \<Longrightarrow>
   fit env td args vd ts vs cbs tc vc w =
     (Inl (RuntimeError ''XLA is not available''), w\<lparr>self := (self w)\<lparr>local_rank := r\<rparr>\<rparr>)"
  by (simp add: fit_def select_device_def prog_defs)

text \<open>
  C1 (as amended): when the configuration asks for "tpu", XLA is unavailable and the
  environment variable LOCAL_RANK is absent or an integer, \<open>fit\<close> raises RuntimeError
  having done nothing but assign \<open>local_rank\<close>: no call has reached the model or the
  host. \<open>load\<close> with \<open>device="tpu"\<close> raises RuntimeError when XLA is unavailable, and
  leaves the world as it was. Neither operation catches or transforms a failure: when
  every earlier call had returned, \<open>fit\<close> and \<open>load\<close> return only if every call they
  made returned, and when a call raises they raise the same exception at once.
\<close>

theorem tpu_guard_raises:
  "(\<not> XLA_AVAILABLE env \<and> args_device args = ''tpu'' \<and> LOCAL_RANK env = Inr r \<longrightarrow>
      fit env td args vd ts vs cbs tc vc w =
        (Inl (RuntimeError ''XLA is not available''), w\<lparr>self := (self w)\<lparr>local_rank := r\<rparr>\<rparr>)) \<and>
   (\<not> XLA_AVAILABLE env \<longrightarrow>
      load env path wo ''tpu'' w = (Inl (RuntimeError ''XLA is not available''), w)) \<and>
   uncaught (fit env td args vd ts vs cbs tc vc) \<and>
   uncaught (load env path wo dev)"
  using fit_tpu_unavailable [of env args r td vd ts vs cbs tc vc w]
    load_tpu_unavailable [of env path wo w]
    uncaught_fit [of env td args vd ts vs cbs tc vc] uncaught_load [of env path wo dev]
  by (simp add: uncaught_def)

theorem tpu_guard_raises_witness:
  "\<not> XLA_AVAILABLE env0 \<and> args_device (args0\<lparr>args_device := ''tpu''\<rparr>) = ''tpu'' \<and>
   LOCAL_RANK env0 = Inr (- 1) \<and>
   fst (fit env0 0 (args0\<lparr>args_device := ''tpu''\<rparr>) None None None None None None w0) =
     Inl (RuntimeError ''XLA is not available'') \<and>
   trace (snd (fit env0 0 (args0\<lparr>args_device := ''tpu''\<rparr>) None None None None None None w0)) = [] \<and>
   fst (load env0 ''ckpt'' False ''tpu'' w0) = Inl (RuntimeError ''XLA is not available'') \<and>
   trace (snd (load env0 ''ckpt'' False ''tpu'' w0)) = [] \<and>
   clean w0 \<and>
   propagated (RuntimeError ''XLA is not available'')
     (snd (fit env0 0 (args0\<lparr>args_device := ''tpu''\<rparr>) None None None None None None w0))"
  using tpu_guard_raises
    [of env0 "args0\<lparr>args_device := ''tpu''\<rparr>" "- 1" 0 None None None None None None w0
        "''ckpt''" False "''cpu''"]
  by (simp add: env0_def args0_def w0_def clean_def propagated_def)

theorem fit_local_rank_counterexample:
  "\<not> XLA_AVAILABLE (env0\<lparr>LOCAL_RANK := Inl ValueError\<rparr>) \<and>
   args_device (args0\<lparr>args_device := ''tpu''\<rparr>) = ''tpu'' \<and>
   fst (fit (env0\<lparr>LOCAL_RANK := Inl ValueError\<rparr>) 0 (args0\<lparr>args_device := ''tpu''\<rparr>)
          None None None None None None w0) = Inl ValueError"
  by (simp add: fit_def prog_defs env0_def args0_def)


subsection \<open>Initialisation\<close>

lemma set_train_state_Inr:
  "set_train_state env v w = (Inr u, w') \<longleftrightarrow>
     (case priv_callback_runner (self w) of
        None \<Rightarrow> w' = w\<lparr>self := (self w)\<lparr>priv_train_state := Some v\<rparr>\<rparr>
      | Some cbs \<Rightarrow>
          fst (run_callbacks env cbs v ((self w)\<lparr>priv_train_state := Some v\<rparr>)) = Inr () \<and>
          w' = w\<lparr>self := snd (run_callbacks env cbs v ((self w)\<lparr>priv_train_state := Some v\<rparr>)),
                 trace := trace w @ [(Callback_runner_call cbs v, None)]\<rparr>)"
  by (auto simp: set_train_state_def split: option.splits)

lemma wrap_model_train_loader:
  "wrap_model env args td w = (Inr (), w') \<Longrightarrow> train_loader (self w') = train_loader (self w)"
  by (auto simp: wrap_model_def split: if_splits)

lemma make_train_loader_unbound:
  "train_loader (self w) = None \<Longrightarrow> make_train_loader env args None td ts tc w \<noteq> (Inr (), w')"
  by (auto simp: make_train_loader_def)

lemma init_tez_n_jobs_unbound:
  assumes "args_n_jobs args \<noteq> - 1" "train_loader (self w) = None"
  shows "init_tez env args td vd ts vs cbs tc vc w \<noteq> (Inr (), w')"
proof
  assume "init_tez env args td vd ts vs cbs tc vc w = (Inr (), w')"
  then obtain wa wb wc where
    "wrap_model env args td wa = (Inr (), wb)" "train_loader (self wa) = None"
    "make_train_loader env args None td ts tc wb = (Inr (), wc)"
    using assms by (auto simp: init_tez_def Let_def)
  then show False
    using wrap_model_train_loader make_train_loader_unbound by metis
qed

lemma select_device_train_loader:
  "select_device env args w = (Inr a, w') \<Longrightarrow>
   train_loader (self w') = train_loader (self w) \<and> args_n_jobs a = args_n_jobs args"
  by (auto simp: select_device_def split: if_splits)

lemma fit_n_jobs_unbound:
  assumes "args_n_jobs args \<noteq> - 1" "train_loader (self w) = None"
  shows "fit env td args vd ts vs cbs tc vc w \<noteq> (Inr (), w')"
proof
  assume "fit env td args vd ts vs cbs tc vc w = (Inr (), w')"
  then obtain x a wa ev wj where
    sd: "select_device env args (w\<lparr>self := (self w)\<lparr>local_rank := x\<rparr>\<rparr>) = (Inr a, wa)" and
    it: "init_tez env a td vd ts vs cbs tc vc (wa\<lparr>trace := trace wa @ [ev]\<rparr>) = (Inr (), wj)"
    by (auto simp: fit_def)
  from select_device_train_loader [OF sd] assms
  have "train_loader (self (wa\<lparr>trace := trace wa @ [ev]\<rparr>)) = None" "args_n_jobs a \<noteq> - 1"
    by simp_all
  with init_tez_n_jobs_unbound it show False by blast
qed

lemma wrap_model_frame:
  "wrap_model env args td w = (Inr (), w') \<Longrightarrow>
   (self w')\<lparr>model := model (self w), train_sampler := train_sampler (self w)\<rparr> = self w"
  by (auto simp: wrap_model_def split: if_splits)

lemma make_train_loader_frame:
  "make_train_loader env args n td ts tc w = (Inr (), w') \<Longrightarrow>
   (self w')\<lparr>train_loader := train_loader (self w)\<rparr> = self w"
  by (auto simp: make_train_loader_def split: if_splits option.splits)

lemma make_valid_loader_frame:
  "make_valid_loader env args n vd ts vs vc w = (Inr (), w') \<Longrightarrow>
   (self w')\<lparr>valid_loader := valid_loader (self w)\<rparr> = self w"
  by (auto simp: make_valid_loader_def split: if_splits option.splits)

lemmas init_blocks_accumulation_steps =
  wrap_model_frame [THEN arg_cong [where f = accumulation_steps], simplified]
  make_train_loader_frame [THEN arg_cong [where f = accumulation_steps], simplified]
  make_valid_loader_frame [THEN arg_cong [where f = accumulation_steps], simplified]

lemma init_tez_accumulation_steps:
  assumes "init_tez env args td vd ts vs cbs tc vc w = (Inr (), w')"
    and "\<And>cbs' s. accumulation_steps (snd (run_callbacks env cbs' TRAIN_START s)) = accumulation_steps s"
  shows "accumulation_steps (self w') = args_accumulation_steps args"
  using assms
  by (auto simp: init_tez_def Let_def set_train_state_Inr split: if_splits
      dest!: init_blocks_accumulation_steps)

lemma init_tez_loader_workers:
  assumes "args_n_jobs args = - 1"
  shows "\<forall>l x. (New_DataLoader l, x)
            \<in> set (drop (length (trace w)) (trace (snd (init_tez env args td vd ts vs cbs tc vc w))))
          \<longrightarrow> ld_num_workers l = cpu_count env"
proof -
  define I where "I = (\<lambda>w'::world. length (trace w) \<le> length (trace w') \<and>
      (\<forall>l x. (New_DataLoader l, x) \<in> set (drop (length (trace w)) (trace w'))
         \<longrightarrow> ld_num_workers l = cpu_count env))"
  have "inv_err I (\<lambda>_. I) (init_tez env args td vd ts vs cbs tc vc)"
    unfolding init_tez_def Let_def wrap_model_def make_train_loader_def make_valid_loader_def
      set_train_state_def
    by (intro inv_err_struct inv_err_prims) (auto simp: I_def assms)
  moreover have "I w"
    unfolding I_def by simp
  ultimately have "I (snd (init_tez env args td vd ts vs cbs tc vc w))"
    by (auto dest!: inv_errD split: prod.splits sum.splits)
  then show ?thesis
    by (simp add: I_def)
qed

text \<open>
  C6: with \<open>n_jobs = -1\<close> every loader that \<open>_init_tez\<close> constructs gets the machine's
  CPU count as its worker count. With any other \<open>n_jobs\<close> and no pre-built train
  loader, \<open>fit\<close> never returns: the local \<open>n_jobs\<close> is unbound where the train loader is
  constructed (line 353), so the configuration's worker count is never used.
\<close>

theorem fit_n_jobs_other_than_cpu_count:
  "(args_n_jobs args \<noteq> - 1 \<and> train_loader (self w) = None \<longrightarrow>
      fst (fit env td args vd ts vs cbs tc vc w) \<noteq> Inr ()) \<and>
   (args_n_jobs args = - 1 \<longrightarrow>
      (\<forall>l x. (New_DataLoader l, x)
            \<in> set (drop (length (trace w)) (trace (snd (init_tez env args td vd ts vs cbs tc vc w))))
          \<longrightarrow> ld_num_workers l = cpu_count env))"
proof (intro conjI impI)
  assume a: "args_n_jobs args \<noteq> - 1 \<and> train_loader (self w) = None"
  show "fst (fit env td args vd ts vs cbs tc vc w) \<noteq> Inr ()"
  proof
    assume "fst (fit env td args vd ts vs cbs tc vc w) = Inr ()"
    then have "fit env td args vd ts vs cbs tc vc w = (Inr (), snd (fit env td args vd ts vs cbs tc vc w))"
      by (simp add: prod_eq_iff)
    with fit_n_jobs_unbound a show False by blast
  qed
next
  assume "args_n_jobs args = - 1"
  then show "\<forall>l x. (New_DataLoader l, x)
            \<in> set (drop (length (trace w)) (trace (snd (init_tez env args td vd ts vs cbs tc vc w))))
          \<longrightarrow> ld_num_workers l = cpu_count env"
    by (rule init_tez_loader_workers)
qed

theorem fit_n_jobs_other_than_cpu_count_witness:
  "args_n_jobs (args0\<lparr>args_n_jobs := 4\<rparr>) \<noteq> - 1 \<and> train_loader (self w0) = None \<and>
   fst (fit env0 0 (args0\<lparr>args_n_jobs := 4\<rparr>) (Some 1) None None None None None w0) =
     Inl (UnboundLocalError ''n_jobs'') \<and>
   map fst (trace (snd (fit env0 0 (args0\<lparr>args_n_jobs := 4\<rparr>) (Some 1) None None None None None w0))) =
     [Torch_device (TorchDevice ''cpu''), Model_to (Module 0) (Some (TorchDevice ''cpu''))]"
proof -
  have "fst (fit env0 0 (args0\<lparr>args_n_jobs := 4\<rparr>) (Some 1) None None None None None w0) =
     Inl (UnboundLocalError ''n_jobs'')"
    by code_simp
  moreover have "map fst (trace (snd (fit env0 0 (args0\<lparr>args_n_jobs := 4\<rparr>) (Some 1) None None None None None w0))) =
     [Torch_device (TorchDevice ''cpu''), Model_to (Module 0) (Some (TorchDevice ''cpu''))]"
    by code_simp
  ultimately show ?thesis
    using fit_n_jobs_other_than_cpu_count
      [of "args0\<lparr>args_n_jobs := 4\<rparr>" w0 env0 0 "Some 1" None None None None None]
    by (simp add: args0_def w0_def Model_init_def)
qed

subsection \<open>Accumulation steps of zero\<close>

lemma raises_raise: "raises (raise e) w"
  by (simp add: raises_def raise_def)

lemma raises_bind_left: "raises m w \<Longrightarrow> raises (bind m f) w"
  unfolding raises_def bind_def
  by (auto split: prod.splits sum.splits)

lemma raises_bind_right: "(\<And>x w'. raises (f x) w') \<Longrightarrow> raises (bind m f) w"
  unfolding raises_def bind_def
  by (auto split: prod.splits sum.splits)

lemma raises_seq_right: "(\<And>w'. raises n w') \<Longrightarrow> raises (seq m n) w"
  by (simp add: seq_def raises_bind_right)

lemma raises_case_prod: "(\<And>a b. raises (f a b) w) \<Longrightarrow> raises (case_prod f p) w"
  by (cases p) simp

lemma raises_get_self: "raises (f (self w)) w \<Longrightarrow> raises (bind get_self f) w"
  by (simp add: raises_def bind_def get_self_def)

lemma py_mod_zero: "py_mod a 0 = raise ZeroDivisionError"
  by (simp add: py_mod_def)

lemma bind_raise: "bind (raise e) f = raise e"
  by (simp add: bind_def raise_def)

lemma train_one_step_raises:
  assumes "accumulation_steps (self w) = 0"
  shows "raises (train_one_step env data) w"
  unfolding train_one_step_def
  apply (rule raises_get_self)
  apply (simp only: assms)
  apply (rule raises_seq_right)
  apply (rule raises_bind_right)
  apply (rule raises_case_prod)+
  apply (rule raises_bind_right)
  apply (rule raises_seq_right)
  apply (rule raises_seq_right)
  apply (rule raises_bind_left)
  apply (simp add: py_mod_zero raises_raise)
  done

lemma train_one_step_zero_error:
  assumes "accumulation_steps (self w) = 0" "train_one_step env data w = (Inl e, w')"
  shows "e = ZeroDivisionError \<or> e = TypeError \<or> (\<exists>name. e = AttributeError name) \<or>
         (trace w' \<noteq> [] \<and> snd (last (trace w')) = Some e)"
proof -
  define I where "I = (\<lambda>v::world. self v = self w)"
  define E where "E = (\<lambda>e (v::world).
     e = ZeroDivisionError \<or> e = TypeError \<or> (\<exists>name. e = AttributeError name) \<or>
     (trace v \<noteq> [] \<and> snd (last (trace v)) = Some e))"
  have mf: "inv_err I E (model_fn env data)"
    unfolding model_fn_def forward_def tensor_mean_def
    by (intro inv_err_struct inv_err_prims) (auto simp: I_def E_def)
  have "inv_err I E (train_one_step env data)"
    unfolding train_one_step_def tensor_div_def
    apply (rule inv_err_bind [OF inv_err_get_self])
    apply (clarsimp simp: I_def assms(1) py_mod_zero bind_raise)
    apply (intro conjI impI)
     apply (intro inv_err_struct inv_err_prims mf [unfolded I_def]; auto simp: E_def)
    apply (intro inv_err_struct inv_err_prims mf [unfolded I_def]; auto simp: E_def)
    done
  moreover have "I w"
    by (simp add: I_def)
  ultimately have "E e w'"
    using assms(2) by (auto dest!: inv_errD)
  then show ?thesis
    by (simp add: E_def)
qed

text \<open>
  C10: \<open>accumulation_steps\<close> is 0 on a new object, and \<open>_init_tez\<close> stores the
  configuration's value as it is (callbacks that leave it alone assumed). With
  \<open>accumulation_steps = 0\<close>, \<open>train_one_step\<close> raises on every batch and at every batch
  index: the loss is divided by 0 and the modulus by 0 raises ZeroDivisionError, unless
  the step was cut short before by a call that raised or by an attribute that is not set.
\<close>

theorem train_one_step_accumulation_steps_zero:
  "accumulation_steps Model_init = 0 \<and>
   (init_tez env args td vd ts vs cbs tc vc w = (Inr (), w') \<and>
    (\<forall>cbs' s. accumulation_steps (snd (run_callbacks env cbs' TRAIN_START s)) = accumulation_steps s)
      \<longrightarrow> accumulation_steps (self w') = args_accumulation_steps args) \<and>
   (accumulation_steps (self w) = 0 \<longrightarrow>
      (\<exists>e. fst (train_one_step env data w) = Inl e \<and>
         (e = ZeroDivisionError \<or> e = TypeError \<or> (\<exists>name. e = AttributeError name) \<or>
          (trace (snd (train_one_step env data w)) \<noteq> [] \<and>
           snd (last (trace (snd (train_one_step env data w)))) = Some e))))"
proof (intro conjI impI)
  show "accumulation_steps Model_init = 0"
    by (simp add: Model_init_def)
next
  assume "init_tez env args td vd ts vs cbs tc vc w = (Inr (), w') \<and>
    (\<forall>cbs' s. accumulation_steps (snd (run_callbacks env cbs' TRAIN_START s)) = accumulation_steps s)"
  then show "accumulation_steps (self w') = args_accumulation_steps args"
    using init_tez_accumulation_steps [of env args td vd ts vs cbs tc vc w w'] by blast
next
  assume z: "accumulation_steps (self w) = 0"
  from train_one_step_raises [OF z, of env data] obtain e where
    e: "fst (train_one_step env data w) = Inl e"
    by (auto simp: raises_def)
  then have "train_one_step env data w = (Inl e, snd (train_one_step env data w))"
    by (simp add: prod_eq_iff)
  from train_one_step_zero_error [OF z this] e
  show "\<exists>e. fst (train_one_step env data w) = Inl e \<and>
         (e = ZeroDivisionError \<or> e = TypeError \<or> (\<exists>name. e = AttributeError name) \<or>
          (trace (snd (train_one_step env data w)) \<noteq> [] \<and>
           snd (last (trace (snd (train_one_step env data w)))) = Some e))"
    by blast
qed

theorem train_one_step_accumulation_steps_zero_witness:
  "fst (init_tez env0 (args0\<lparr>args_accumulation_steps := 0\<rparr>) 0 None None None None None None w0)
     = Inr () \<and>
   accumulation_steps (self (snd
     (init_tez env0 (args0\<lparr>args_accumulation_steps := 0\<rparr>) 0 None None None None None None w0)))
     = 0 \<and>
   fst (train_one_step env0 [(''x'', 1)] (snd
     (init_tez env0 (args0\<lparr>args_accumulation_steps := 0\<rparr>) 0 None None None None None None w0)))
     = Inl ZeroDivisionError \<and>
   map fst (drop 2 (trace (snd (train_one_step env0 [(''x'', 1)] (snd
     (init_tez env0 (args0\<lparr>args_accumulation_steps := 0\<rparr>) 0 None None None None None None w0))))))
     = [Tensor_to 1 None, Forward (Module 0) [(''x'', 1)] False, Tensor_div (Loss 3) 0,
        Backward (Div (Loss 3) 0)]"
proof -
  let ?a = "args0\<lparr>args_accumulation_steps := 0\<rparr>"
  let ?w = "snd (init_tez env0 ?a 0 None None None None None None w0)"
  have i: "fst (init_tez env0 ?a 0 None None None None None None w0) = Inr ()"
    by code_simp
  then have "init_tez env0 ?a 0 None None None None None None w0 = (Inr (), ?w)"
    by (simp add: prod_eq_iff)
  moreover have "\<forall>cbs' s. accumulation_steps (snd (run_callbacks env0 cbs' TRAIN_START s)) = accumulation_steps s"
    by (simp add: env0_def)
  ultimately have z: "accumulation_steps (self ?w) = 0"
    using train_one_step_accumulation_steps_zero
      [of env0 ?a 0 None None None None None None w0 ?w]
    by (simp add: args0_def)
  have s: "fst (train_one_step env0 [(''x'', 1)] ?w) = Inl ZeroDivisionError"
    by code_simp
  have t: "map fst (drop 2 (trace (snd (train_one_step env0 [(''x'', 1)] ?w)))) =
    [Tensor_to 1 None, Forward (Module 0) [(''x'', 1)] False, Tensor_div (Loss 3) 0,
        Backward (Div (Loss 3) 0)]"
    by code_simp
  from i z s t show ?thesis by simp
qed



subsection \<open>Callbacks, dispatches and epochs\<close>

lemma dispatched_append [simp]: "dispatched (t @ u) = dispatched t @ dispatched u"
  by (induction t) (simp_all add: dispatched_def split: option.splits)

lemma dispatched_Nil [simp]: "dispatched [] = []"
  by (simp add: dispatched_def)

lemma dispatched_single [simp]:
  "dispatched [(c, r)] = (case c of Callback_runner_call cbs v \<Rightarrow> [v] | _ \<Rightarrow> [])"
  by (cases c) (simp_all add: dispatched_def dispatch_of_def)

lemma dispatched_Cons [simp]:
  "dispatched ((c, r) # t) =
     (case c of Callback_runner_call cbs v \<Rightarrow> v # dispatched t | _ \<Rightarrow> dispatched t)"
  by (cases c) (simp_all add: dispatched_def dispatch_of_def map_filter_simps)

lemma epoch_marks_append [simp]: "epoch_marks (t @ u) = epoch_marks t @ epoch_marks u"
  by (induction t) (simp_all add: epoch_marks_def split: option.splits)

lemma epoch_marks_Nil [simp]: "epoch_marks [] = []"
  by (simp add: epoch_marks_def)

lemma epoch_marks_single [simp]:
  "epoch_marks [(c, r)] =
     (case c of Model_train m \<Rightarrow> [TRAIN] | Model_eval m \<Rightarrow> [VALID] | _ \<Rightarrow> [])"
  by (cases c) (simp_all add: epoch_marks_def mark_of_def)

lemma epoch_marks_Cons [simp]:
  "epoch_marks ((c, r) # t) =
     (case c of Model_train m \<Rightarrow> TRAIN # epoch_marks t | Model_eval m \<Rightarrow> VALID # epoch_marks t
      | _ \<Rightarrow> epoch_marks t)"
  by (cases c) (simp_all add: epoch_marks_def mark_of_def map_filter_simps)

lemma same_setup_refl [simp]: "same_setup s s"
  by (simp add: same_setup_def)

lemma same_setup_fields:
  assumes "same_setup s s'"
  shows "priv_callback_runner s' = priv_callback_runner s" "train_loader s' = train_loader s"
    "valid_loader s' = valid_loader s" "current_epoch s' = current_epoch s" "fp16 s' = fp16 s"
    "accumulation_steps s' = accumulation_steps s" "model s' = model s"
    "optimizer s' = optimizer s" "scheduler s' = scheduler s" "scaler s' = scaler s"
    "using_tpu s' = using_tpu s" "local_rank s' = local_rank s"
    "step_scheduler_after s' = step_scheduler_after s"
    "step_scheduler_metric s' = step_scheduler_metric s"
    "clip_grad_norm s' = clip_grad_norm s" "device_count s' = device_count s"
    "train_sampler s' = train_sampler s" "device s' = device s"
  using assms [unfolded same_setup_def, THEN arg_cong, of priv_callback_runner]
    assms [unfolded same_setup_def, THEN arg_cong, of train_loader]
    assms [unfolded same_setup_def, THEN arg_cong, of valid_loader]
    assms [unfolded same_setup_def, THEN arg_cong, of current_epoch]
    assms [unfolded same_setup_def, THEN arg_cong, of fp16]
    assms [unfolded same_setup_def, THEN arg_cong, of accumulation_steps]
    assms [unfolded same_setup_def, THEN arg_cong, of model]
    assms [unfolded same_setup_def, THEN arg_cong, of optimizer]
    assms [unfolded same_setup_def, THEN arg_cong, of scheduler]
    assms [unfolded same_setup_def, THEN arg_cong, of scaler]
    assms [unfolded same_setup_def, THEN arg_cong, of using_tpu]
    assms [unfolded same_setup_def, THEN arg_cong, of local_rank]
    assms [unfolded same_setup_def, THEN arg_cong, of step_scheduler_after]
    assms [unfolded same_setup_def, THEN arg_cong, of step_scheduler_metric]
    assms [unfolded same_setup_def, THEN arg_cong, of clip_grad_norm]
    assms [unfolded same_setup_def, THEN arg_cong, of device_count]
    assms [unfolded same_setup_def, THEN arg_cong, of train_sampler]
    assms [unfolded same_setup_def, THEN arg_cong, of device]
  by simp_all

lemma same_setup_trans: "same_setup a b \<Longrightarrow> same_setup b c \<Longrightarrow> same_setup a c"
proof -
  assume ab: "same_setup a b" and bc: "same_setup b c"
  have "c\<lparr>priv_model_state := priv_model_state a,
         priv_train_state := priv_train_state a, batch_index := batch_index a,
         current_train_step := current_train_step a,
         current_valid_step := current_valid_step a\<rparr> =
        (c\<lparr>priv_model_state := priv_model_state b,
         priv_train_state := priv_train_state b, batch_index := batch_index b,
         current_train_step := current_train_step b,
         current_valid_step := current_valid_step b\<rparr>)\<lparr>priv_model_state := priv_model_state a,
         priv_train_state := priv_train_state a, batch_index := batch_index a,
         current_train_step := current_train_step a,
         current_valid_step := current_valid_step a\<rparr>"
    by simp
  also have "\<dots> = b\<lparr>priv_model_state := priv_model_state a,
         priv_train_state := priv_train_state a, batch_index := batch_index a,
         current_train_step := current_train_step a,
         current_valid_step := current_valid_step a\<rparr>"
    using bc by (simp only: same_setup_def)
  also have "\<dots> = a"
    using ab by (simp only: same_setup_def)
  finally show ?thesis
    by (simp only: same_setup_def)
qed

lemma quiet_refl [simp]: "quiet w w"
  by (simp add: quiet_def)

lemma quiet_trans: "quiet a b \<Longrightarrow> quiet b c \<Longrightarrow> quiet a c"
  by (auto simp: quiet_def intro: same_setup_trans)

lemmas quiet_auto = quiet_def same_setup_def

lemma quiet_name_to_metric: "inv_err (quiet w) (\<lambda>_. quiet w) (name_to_metric n)"
  unfolding name_to_metric_def Let_def
  by (intro inv_err_struct inv_err_prims) (auto simp: quiet_auto)

lemma quiet_step_scheduler: "inv_err (quiet w) (\<lambda>_. quiet w) (step_scheduler env after)"
  unfolding step_scheduler_def
  by (intro inv_err_struct inv_err_prims quiet_name_to_metric) (auto simp: quiet_auto)

lemma quiet_model_fn: "inv_err (quiet w) (\<lambda>_. quiet w) (model_fn env data)"
  unfolding model_fn_def forward_def tensor_mean_def
  by (intro inv_err_struct inv_err_prims) (auto simp: quiet_auto)

lemma quiet_train_one_step: "inv_err (quiet w) (\<lambda>_. quiet w) (train_one_step env data)"
  unfolding train_one_step_def tensor_div_def py_mod_def
  by (intro inv_err_struct inv_err_prims quiet_model_fn quiet_step_scheduler)
     (auto simp: quiet_auto)

lemma quiet_validate_one_step:
  "inv_err (quiet w) (\<lambda>_. quiet w)
     (validate_one_step env data)"
  unfolding validate_one_step_def tensor_mean_def
  by (intro inv_err_struct inv_err_prims quiet_model_fn) (auto simp: quiet_auto)

lemma quiet_update_metrics:
  "inv_err (quiet w) (\<lambda>_. quiet w)
     (update_metrics losses monitor)"
  unfolding update_metrics_def
  by (intro inv_err_struct inv_err_prims) (auto simp: quiet_auto)

lemma quiet_set_model_state: "inv_err (quiet w) (\<lambda>_. quiet w) (set_model_state st)"
  unfolding set_model_state_def
  by (intro inv_err_struct inv_err_prims) (auto simp: quiet_auto)

lemma inv_err_Inr: "inv_err I E m \<Longrightarrow> I w \<Longrightarrow> m w = (Inr x, w') \<Longrightarrow> I w'"
  by (auto dest!: inv_errD)

lemmas quiet_Inr =
  quiet_step_scheduler [THEN inv_err_Inr, OF quiet_refl]
  quiet_train_one_step [THEN inv_err_Inr, OF quiet_refl]
  quiet_validate_one_step [THEN inv_err_Inr, OF quiet_refl]
  quiet_update_metrics [THEN inv_err_Inr, OF quiet_refl]
  quiet_set_model_state [THEN inv_err_Inr, OF quiet_refl]

lemma advance_refl [simp]: "advance w w [] []"
  by (simp add: advance_def)

lemma advance_trans:
  "advance a b ds ms \<Longrightarrow> advance b c ds' ms' \<Longrightarrow> advance a c (ds @ ds') (ms @ ms')"
  by (auto simp: advance_def intro: same_setup_trans)

lemma quiet_advance: "quiet w w' \<Longrightarrow> advance w w' [] []"
  by (simp add: quiet_def advance_def)

lemma advance_runner:
  "advance w w' ds ms \<Longrightarrow> priv_callback_runner (self w') = priv_callback_runner (self w)"
  by (auto simp: advance_def dest: same_setup_fields(1))

lemma set_train_state_frame:
  assumes "callbacks_frame env" "priv_callback_runner (self w) = Some cbs"
    "set_train_state env v w = (Inr u, w')"
  shows "\<exists>st. w' = w\<lparr>self := (self w)\<lparr>priv_train_state := Some v, priv_model_state := st\<rparr>,
                     trace := trace w @ [(Callback_runner_call cbs v, None)]\<rparr>"
proof -
  from assms(1) obtain st where
    "snd (run_callbacks env cbs v ((self w)\<lparr>priv_train_state := Some v\<rparr>)) =
       (self w)\<lparr>priv_train_state := Some v\<rparr>\<lparr>priv_model_state := st\<rparr>"
    unfolding callbacks_frame_def by blast
  with assms(2,3) show ?thesis
    by (auto simp: set_train_state_Inr)
qed

lemma set_train_state_dispatch:
  assumes "callbacks_frame env" "priv_callback_runner (self w) = Some cbs"
    "set_train_state env v w = (Inr u, w')"
  shows "advance w w' [v] []"
  using set_train_state_frame [OF assms] by (auto simp: advance_def same_setup_def)

lemma train_batches_dispatch:
  assumes fr: "callbacks_frame env"
  shows "priv_callback_runner (self w) = Some cbs \<Longrightarrow>
     train_batches env dl bs i locals w = (Inr r, w') \<Longrightarrow>
     advance w w' (concat (replicate (length bs) [TRAIN_STEP_START, TRAIN_STEP_END])) []"
proof (induction bs arbitrary: w i locals)
  case Nil
  then show ?case by simp
next
  case (Cons b bs)
  obtain losses mm mon where locals: "locals = (losses, mm, mon)"
    by (cases locals) auto
  let ?w1 = "w\<lparr>self := (self w)\<lparr>batch_index := i\<rparr>\<rparr>"
  from Cons.prems(2) obtain w2 w3 w4 loss sm locals' where
    s1: "set_train_state env TRAIN_STEP_START ?w1 = (Inr (), w2)" and
    st: "train_one_step env b w2 = (Inr (loss, sm), w3)" and
    s2: "set_train_state env TRAIN_STEP_END w3 = (Inr (), w4)" and
    rc: "train_batches env dl bs (i + 1) locals'
           (w4\<lparr>trace := trace w4 @ [(Tensor_item loss, None)],
               self := (self w4)\<lparr>current_train_step := current_train_step (self w4) + 1\<rparr>\<rparr>)
         = (Inr r, w')"
    by (auto simp: locals tensor_item_def split: prod.splits)
  let ?w5 = "w4\<lparr>trace := trace w4 @ [(Tensor_item loss, None)],
               self := (self w4)\<lparr>current_train_step := current_train_step (self w4) + 1\<rparr>\<rparr>"
  have a1: "advance w ?w1 [] []"
    by (simp add: advance_def same_setup_def)
  have a2: "advance ?w1 w2 [TRAIN_STEP_START] []"
    using Cons.prems(1) by (intro set_train_state_dispatch [OF fr _ s1]) simp
  note a12 = advance_trans [OF a1 a2]
  have a3: "advance w2 w3 [] []"
    by (rule quiet_advance [OF quiet_Inr(2) [OF st]])
  note a13 = advance_trans [OF a12 a3]
  have a4: "advance w3 w4 [TRAIN_STEP_END] []"
    using advance_runner [OF a13] Cons.prems(1)
    by (intro set_train_state_dispatch [OF fr _ s2]) simp
  note a14 = advance_trans [OF a13 a4]
  have a5: "advance w4 ?w5 [] []"
    by (simp add: advance_def same_setup_def)
  note a15 = advance_trans [OF a14 a5]
  have a6: "advance ?w5 w' (concat (replicate (length bs) [TRAIN_STEP_START, TRAIN_STEP_END])) []"
    using advance_runner [OF a15] Cons.prems(1)
    by (intro Cons.IH [OF _ rc]) simp
  from advance_trans [OF a15 a6] show ?case by simp
qed

lemma valid_batches_dispatch:
  assumes fr: "callbacks_frame env"
  shows "priv_callback_runner (self w) = Some cbs \<Longrightarrow>
     valid_batches env dl bs i locals w = (Inr r, w') \<Longrightarrow>
     advance w w' (concat (replicate (length bs) [VALID_STEP_START, VALID_STEP_END])) []"
proof (induction bs arbitrary: w i locals)
  case Nil
  then show ?case by simp
next
  case (Cons b bs)
  obtain losses mm mon where locals: "locals = (losses, mm, mon)"
    by (cases locals) auto
  from Cons.prems(2) obtain w2 w3 w4 w5 loss loss' sm locals' where
    s1: "set_train_state env VALID_STEP_START w = (Inr (), w2)" and
    st: "validate_one_step env b w2 = (Inr (loss, sm), w3)" and
    s2: "set_train_state env VALID_STEP_END w4 = (Inr (), w5)" and
    rc: "valid_batches env dl bs (i + 1) locals'
           (w5\<lparr>trace := trace w5 @ [(Tensor_item loss', None)],
               self := (self w5)\<lparr>current_valid_step := current_valid_step (self w5) + 1\<rparr>\<rparr>)
         = (Inr r, w')" and
    md: "w4 = w3 \<or>
         w4 = w3\<lparr>trace := trace w3 @ [(Dist_barrier, None), (Dist_all_gather loss, None)]\<rparr>"
    by (cases "local_rank (self (snd (validate_one_step env b (snd (set_train_state env VALID_STEP_START w))))) = - 1")
       (auto simp: locals tensor_item_def split: prod.splits)
  let ?w6 = "w5\<lparr>trace := trace w5 @ [(Tensor_item loss', None)],
               self := (self w5)\<lparr>current_valid_step := current_valid_step (self w5) + 1\<rparr>\<rparr>"
  have a1: "advance w w2 [VALID_STEP_START] []"
    by (rule set_train_state_dispatch [OF fr Cons.prems(1) s1])
  have a2: "advance w2 w3 [] []"
    by (rule quiet_advance [OF quiet_Inr(3) [OF st]])
  note a12 = advance_trans [OF a1 a2]
  have a3: "advance w3 w4 [] []"
    using md by (auto simp: advance_def same_setup_def)
  note a13 = advance_trans [OF a12 a3]
  have a4: "advance w4 w5 [VALID_STEP_END] []"
    using advance_runner [OF a13] Cons.prems(1)
    by (intro set_train_state_dispatch [OF fr _ s2]) simp
  note a14 = advance_trans [OF a13 a4]
  have a5: "advance w5 ?w6 [] []"
    by (simp add: advance_def same_setup_def)
  note a15 = advance_trans [OF a14 a5]
  have a6: "advance ?w6 w' (concat (replicate (length bs) [VALID_STEP_START, VALID_STEP_END])) []"
    using advance_runner [OF a15] Cons.prems(1)
    by (intro Cons.IH [OF _ rc]) simp
  from advance_trans [OF a15 a6] show ?case by simp
qed

lemma train_one_epoch_parts:
  assumes "train_one_epoch env dlo w = (Inr r, w')"
  shows "\<exists>dl w1 res w2 losses mon.
     dlo = Some dl \<and>
     train_batches env dl (batches env dl) 0 ([], [], None) w1 = (Inr res, w2) \<and>
     update_metrics losses mon w2 = (Inr (), w') \<and>
     advance w w1 [] [TRAIN] \<and>
     priv_callback_runner (self w1) = priv_callback_runner (self w)"
  using assms unfolding train_one_epoch_def
  apply (clarsimp simp: set_model_state_def split: option.splits if_splits prod.splits)
  subgoal
    by (intro exI conjI, assumption, assumption) (simp_all add: advance_def same_setup_def)
  subgoal
    by (intro exI conjI, assumption, assumption) (simp_all add: advance_def same_setup_def)
  subgoal
    by (intro exI conjI, assumption, assumption) (simp_all add: advance_def same_setup_def)
  subgoal
    by (intro exI conjI, assumption, assumption) (simp_all add: advance_def same_setup_def)
  done

lemma train_one_epoch_dispatch:
  assumes fr: "callbacks_frame env" and r: "priv_callback_runner (self w) = Some cbs"
    and eq: "train_one_epoch env dlo w = (Inr x, w')"
  shows "\<exists>dl. dlo = Some dl \<and>
     advance w w' (concat (replicate (length (batches env dl)) [TRAIN_STEP_START, TRAIN_STEP_END]))
       [TRAIN]"
proof -
  from train_one_epoch_parts [OF eq] obtain dl w1 res w2 losses mon where
    dl: "dlo = Some dl" and
    tb: "train_batches env dl (batches env dl) 0 ([], [], None) w1 = (Inr res, w2)" and
    um: "update_metrics losses mon w2 = (Inr (), w')" and
    a1: "advance w w1 [] [TRAIN]" and
    r1: "priv_callback_runner (self w1) = priv_callback_runner (self w)"
    by blast
  have a2: "advance w1 w2 (concat (replicate (length (batches env dl))
              [TRAIN_STEP_START, TRAIN_STEP_END])) []"
    using r r1 by (intro train_batches_dispatch [OF fr _ tb]) simp
  have a3: "advance w2 w' [] []"
    by (rule quiet_advance [OF quiet_Inr(4) [OF um]])
  from advance_trans [OF advance_trans [OF a1 a2] a3] dl show ?thesis by simp
qed

lemma validate_one_epoch_parts:
  assumes "validate_one_epoch env dlo w = (Inr r, w')"
  shows "\<exists>dl w1 res w2 losses mon.
     dlo = Some dl \<and>
     valid_batches env dl (batches env dl) 0 ([], [], None) w1 = (Inr res, w2) \<and>
     update_metrics losses mon w2 = (Inr (), w') \<and>
     advance w w1 [] [VALID] \<and>
     priv_callback_runner (self w1) = priv_callback_runner (self w)"
  using assms unfolding validate_one_epoch_def
  apply (clarsimp simp: set_model_state_def split: option.splits prod.splits)
  subgoal
    by (intro exI conjI, assumption, assumption) (simp_all add: advance_def same_setup_def)
  done

lemma validate_one_epoch_dispatch:
  assumes fr: "callbacks_frame env" and r: "priv_callback_runner (self w) = Some cbs"
    and eq: "validate_one_epoch env dlo w = (Inr x, w')"
  shows "\<exists>dl. dlo = Some dl \<and>
     advance w w' (concat (replicate (length (batches env dl)) [VALID_STEP_START, VALID_STEP_END]))
       [VALID]"
proof -
  from validate_one_epoch_parts [OF eq] obtain dl w1 res w2 losses mon where
    dl: "dlo = Some dl" and
    tb: "valid_batches env dl (batches env dl) 0 ([], [], None) w1 = (Inr res, w2)" and
    um: "update_metrics losses mon w2 = (Inr (), w')" and
    a1: "advance w w1 [] [VALID]" and
    r1: "priv_callback_runner (self w1) = priv_callback_runner (self w)"
    by blast
  have a2: "advance w1 w2 (concat (replicate (length (batches env dl))
              [VALID_STEP_START, VALID_STEP_END])) []"
    using r r1 by (intro valid_batches_dispatch [OF fr _ tb]) simp
  have a3: "advance w2 w' [] []"
    by (rule quiet_advance [OF quiet_Inr(4) [OF um]])
  from advance_trans [OF advance_trans [OF a1 a2] a3] dl show ?thesis by simp
qed


lemma advance_fields:
  assumes "advance w w' ds ms"
  shows "priv_callback_runner (self w') = priv_callback_runner (self w)"
    "train_loader (self w') = train_loader (self w)"
    "valid_loader (self w') = valid_loader (self w)"
    "current_epoch (self w') = current_epoch (self w)"
    "fp16 (self w') = fp16 (self w)"
    "accumulation_steps (self w') = accumulation_steps (self w)"
  using assms by (auto simp: advance_def dest: same_setup_fields)

lemma advance_batches:
  assumes "advance w w' ds ms"
  shows "n_train_batches env (self w') = n_train_batches env (self w)"
    "n_valid_batches env (self w') = n_valid_batches env (self w)"
  using advance_fields [OF assms] by (simp_all add: n_train_batches_def n_valid_batches_def)

lemma valid_part_dispatch:
  assumes fr: "callbacks_frame env" and r: "priv_callback_runner (self w) = Some cbs"
    and eq: "(if loader_truthy env (valid_loader (self w)) then
               seq (set_train_state env VALID_EPOCH_START)
              (bind get_self (\<lambda>s.
               bind (validate_one_epoch env (valid_loader s)) (\<lambda>_.
               set_train_state env VALID_EPOCH_END)))
             else ret ()) w = (Inr u, w')"
  shows "advance w w'
     (case n_valid_batches env (self w) of
        None \<Rightarrow> []
      | Some n \<Rightarrow>
          [VALID_EPOCH_START] @ concat (replicate n [VALID_STEP_START, VALID_STEP_END]) @
          [VALID_EPOCH_END])
     (case n_valid_batches env (self w) of None \<Rightarrow> [] | Some n \<Rightarrow> [VALID])"
proof (cases "loader_truthy env (valid_loader (self w))")
  case False
  with eq show ?thesis by (simp add: n_valid_batches_def)
next
  case True
  with eq obtain w1 w2 x where
    s1: "set_train_state env VALID_EPOCH_START w = (Inr (), w1)" and
    ve: "validate_one_epoch env (valid_loader (self w1)) w1 = (Inr x, w2)" and
    s2: "set_train_state env VALID_EPOCH_END w2 = (Inr (), w')"
    by auto
  have a1: "advance w w1 [VALID_EPOCH_START] []"
    by (rule set_train_state_dispatch [OF fr r s1])
  have r1: "priv_callback_runner (self w1) = Some cbs"
    using advance_fields(1) [OF a1] r by simp
  from validate_one_epoch_dispatch [OF fr r1 ve] obtain dl where
    dl: "valid_loader (self w1) = Some dl" and
    a2: "advance w1 w2
           (concat (replicate (length (batches env dl)) [VALID_STEP_START, VALID_STEP_END])) [VALID]"
    by blast
  note a12 = advance_trans [OF a1 a2]
  have r2: "priv_callback_runner (self w2) = Some cbs"
    using advance_fields(1) [OF a12] r by simp
  have a3: "advance w2 w' [VALID_EPOCH_END] []"
    by (rule set_train_state_dispatch [OF fr r2 s2])
  have n: "n_valid_batches env (self w) = Some (length (batches env dl))"
    using True dl advance_fields(3) [OF a1] by (simp add: n_valid_batches_def)
  from advance_trans [OF a12 a3] show ?thesis
    by (simp add: n)
qed

lemma one_epoch_dispatch:
  assumes fr: "callbacks_frame env" and r: "priv_callback_runner (self w) = Some cbs"
    and eq: "one_epoch env w = (Inr stop, w')"
  shows "advance w w'
           (epoch_train_states (n_train_batches env (self w)) (n_valid_batches env (self w)))
           (epoch_functions (n_valid_batches env (self w))) \<and>
         (\<exists>st. priv_model_state (self w') = Some st \<and> stop = (st = END))"
proof -
  from eq obtain w1 w2 x w3 w4 w5 w6 st where
    s1: "set_train_state env EPOCH_START w = (Inr (), w1)" and
    s2: "set_train_state env TRAIN_EPOCH_START w1 = (Inr (), w2)" and
    te: "train_one_epoch env (train_loader (self w2)) w2 = (Inr x, w3)" and
    s3: "set_train_state env TRAIN_EPOCH_END w3 = (Inr (), w4)" and
    vp: "(if loader_truthy env (valid_loader (self w4)) then
               seq (set_train_state env VALID_EPOCH_START)
              (bind get_self (\<lambda>s.
               bind (validate_one_epoch env (valid_loader s)) (\<lambda>_.
               set_train_state env VALID_EPOCH_END)))
             else ret ()) w4 = (Inr (), w5)" and
    ss: "step_scheduler env ''epoch'' w5 = (Inr (), w6)" and
    s4: "set_train_state env EPOCH_END w6 = (Inr (), w')" and
    st: "priv_model_state (self w') = Some st" "stop = (ModelState_value st = ''end'')"
    unfolding one_epoch_def by auto
  have a1: "advance w w1 [EPOCH_START] []"
    by (rule set_train_state_dispatch [OF fr r s1])
  have r1: "priv_callback_runner (self w1) = Some cbs"
    using advance_fields(1) [OF a1] r by simp
  have a2: "advance w1 w2 [TRAIN_EPOCH_START] []"
    by (rule set_train_state_dispatch [OF fr r1 s2])
  note a02 = advance_trans [OF a1 a2]
  have r2: "priv_callback_runner (self w2) = Some cbs"
    using advance_fields(1) [OF a02] r by simp
  from train_one_epoch_dispatch [OF fr r2 te] obtain dl where
    dl: "train_loader (self w2) = Some dl" and
    a3: "advance w2 w3
           (concat (replicate (length (batches env dl)) [TRAIN_STEP_START, TRAIN_STEP_END])) [TRAIN]"
    by blast
  have nt: "n_train_batches env (self w) = length (batches env dl)"
    using dl advance_fields(2) [OF a02] by (simp add: n_train_batches_def)
  note a03 = advance_trans [OF a02 a3]
  have r3: "priv_callback_runner (self w3) = Some cbs"
    using advance_fields(1) [OF a03] r by simp
  have a4: "advance w3 w4 [TRAIN_EPOCH_END] []"
    by (rule set_train_state_dispatch [OF fr r3 s3])
  note a04 = advance_trans [OF a03 a4]
  have r4: "priv_callback_runner (self w4) = Some cbs"
    using advance_fields(1) [OF a04] r by simp
  note a5 = valid_part_dispatch [OF fr r4 vp]
  note a05 = advance_trans [OF a04 a5]
  have a6: "advance w5 w6 [] []"
    by (rule quiet_advance [OF quiet_Inr(1) [OF ss]])
  note a06 = advance_trans [OF a05 a6]
  have r6: "priv_callback_runner (self w6) = Some cbs"
    using advance_fields(1) [OF a06] r by simp
  have a7: "advance w6 w' [EPOCH_END] []"
    by (rule set_train_state_dispatch [OF fr r6 s4])
  have "advance w w'
           (epoch_train_states (n_train_batches env (self w)) (n_valid_batches env (self w)))
           (epoch_functions (n_valid_batches env (self w)))"
    using advance_trans [OF a06 a7]
    by (simp add: nt advance_batches(2) [OF a04] epoch_train_states_def epoch_functions_def
        split: option.splits)
  moreover have "stop = (st = END)"
    using st(2) by (cases st) simp_all
  ultimately show ?thesis using st(1) by blast
qed

lemma fit_epochs_dispatch:
  assumes fr: "callbacks_frame env"
  shows "priv_callback_runner (self w) = Some cbs \<Longrightarrow>
     fit_epochs env n w = (Inr u, w') \<Longrightarrow>
     \<exists>m\<le>n.
       dispatched (trace w') = dispatched (trace w) @
         concat (replicate m (epoch_train_states (n_train_batches env (self w))
                                (n_valid_batches env (self w)))) \<and>
       epoch_marks (trace w') = epoch_marks (trace w) @
         concat (replicate m (epoch_functions (n_valid_batches env (self w)))) \<and>
       priv_callback_runner (self w') = Some cbs \<and>
       train_loader (self w') = train_loader (self w) \<and>
       valid_loader (self w') = valid_loader (self w) \<and>
       fp16 (self w') = fp16 (self w) \<and>
       (m = n \<and> current_epoch (self w') = current_epoch (self w) + int n \<and>
          (n = 0 \<or> priv_model_state (self w') \<noteq> Some END) \<or>
        0 < m \<and> current_epoch (self w') = current_epoch (self w) + int m - 1 \<and>
          priv_model_state (self w') = Some END)"
proof (induction n arbitrary: w)
  case 0
  then show ?case by simp
next
  case (Suc n)
  let ?E = "epoch_train_states (n_train_batches env (self w)) (n_valid_batches env (self w))"
  let ?F = "epoch_functions (n_valid_batches env (self w))"
  from Suc.prems(2) obtain stop w1 where
    oe: "one_epoch env w = (Inr stop, w1)" and
    rest: "(if stop then ret ()
            else seq (assign (\<lambda>s. s\<lparr>current_epoch := current_epoch s + 1\<rparr>)) (fit_epochs env n)) w1
           = (Inr u, w')"
    by auto
  from one_epoch_dispatch [OF fr Suc.prems(1) oe] obtain st where
    a1: "advance w w1 ?E ?F" and
    st: "priv_model_state (self w1) = Some st" "stop = (st = END)"
    by blast
  note f1 = advance_fields [OF a1]
  show ?case
  proof (cases stop)
    case True
    with rest have "w' = w1" by simp
    with a1 st True f1 Suc.prems(1) show ?thesis
      by (intro exI [of _ 1]) (simp add: advance_def)
  next
    case False
    let ?w2 = "w1\<lparr>self := (self w1)\<lparr>current_epoch := current_epoch (self w1) + 1\<rparr>\<rparr>"
    from False rest have fe: "fit_epochs env n ?w2 = (Inr u, w')" by simp
    have r2: "priv_callback_runner (self ?w2) = Some cbs"
      using f1 Suc.prems(1) by simp
    have nb: "n_train_batches env (self ?w2) = n_train_batches env (self w)"
      "n_valid_batches env (self ?w2) = n_valid_batches env (self w)"
      using f1 by (simp_all add: n_train_batches_def n_valid_batches_def)
    from Suc.IH [OF r2 fe, unfolded nb] obtain m where
      m: "m \<le> n" and
      d: "dispatched (trace w') = dispatched (trace ?w2) @ concat (replicate m ?E)" and
      e: "epoch_marks (trace w') = epoch_marks (trace ?w2) @ concat (replicate m ?F)" and
      k: "priv_callback_runner (self w') = Some cbs"
         "train_loader (self w') = train_loader (self ?w2)"
         "valid_loader (self w') = valid_loader (self ?w2)"
         "fp16 (self w') = fp16 (self ?w2)" and
      c: "m = n \<and> current_epoch (self w') = current_epoch (self ?w2) + int n \<and>
            (n = 0 \<or> priv_model_state (self w') \<noteq> Some END) \<or>
          0 < m \<and> current_epoch (self w') = current_epoch (self ?w2) + int m - 1 \<and>
            priv_model_state (self w') = Some END"
      by blast
    have d': "dispatched (trace w') = dispatched (trace w) @ concat (replicate (Suc m) ?E)"
      using d a1 by (simp add: advance_def)
    have e': "epoch_marks (trace w') = epoch_marks (trace w) @ concat (replicate (Suc m) ?F)"
      using e a1 by (simp add: advance_def)
    have k': "train_loader (self w') = train_loader (self w)"
      "valid_loader (self w') = valid_loader (self w)" "fp16 (self w') = fp16 (self w)"
      using k f1 by simp_all
    have c': "Suc m = Suc n \<and> current_epoch (self w') = current_epoch (self w) + int (Suc n) \<and>
            (Suc n = 0 \<or> priv_model_state (self w') \<noteq> Some END) \<or>
          0 < Suc m \<and> current_epoch (self w') = current_epoch (self w) + int (Suc m) - 1 \<and>
            priv_model_state (self w') = Some END"
    proof (cases "n = 0")
      case True
      with m c fe st False f1 show ?thesis by auto
    next
      case False
      with c f1 show ?thesis by auto
    qed
    from m d' e' k(1) k' c' show ?thesis
      by (intro exI [of _ "Suc m"]) simp
  qed
qed

lemma calm_wrap_model:
  "inv_err (\<lambda>v. dispatched (trace v) = D \<and> epoch_marks (trace v) = M \<and> current_epoch (self v) = c)
     (\<lambda>_ _. True) (wrap_model env args td)"
  unfolding wrap_model_def
  by (intro inv_err_struct inv_err_prims) auto

lemma calm_make_train_loader:
  "inv_err (\<lambda>v. dispatched (trace v) = D \<and> epoch_marks (trace v) = M \<and> current_epoch (self v) = c)
     (\<lambda>_ _. True) (make_train_loader env args n_jobs td ts tc)"
  unfolding make_train_loader_def
  by (intro inv_err_struct inv_err_prims) auto

lemma calm_make_valid_loader:
  "inv_err (\<lambda>v. dispatched (trace v) = D \<and> epoch_marks (trace v) = M \<and> current_epoch (self v) = c)
     (\<lambda>_ _. True) (make_valid_loader env args n_jobs vd ts vs vc)"
  unfolding make_valid_loader_def
  by (intro inv_err_struct inv_err_prims) auto

lemma calm_select_device:
  "inv_err (\<lambda>v. dispatched (trace v) = D \<and> epoch_marks (trace v) = M \<and> current_epoch (self v) = c)
     (\<lambda>_ _. True) (select_device env args)"
  unfolding select_device_def
  by (intro inv_err_struct inv_err_prims) auto

lemmas calm_Inr =
  calm_wrap_model [THEN inv_err_Inr, OF conjI [OF refl conjI [OF refl refl]]]
  calm_make_train_loader [THEN inv_err_Inr, OF conjI [OF refl conjI [OF refl refl]]]
  calm_make_valid_loader [THEN inv_err_Inr, OF conjI [OF refl conjI [OF refl refl]]]
  calm_select_device [THEN inv_err_Inr, OF conjI [OF refl conjI [OF refl refl]]]

lemma init_tez_parts:
  assumes "init_tez env args td vd ts vs cbs tc vc w = (Inr u, w')"
  shows "\<exists>nj w1 w2 w3 w4 w5.
     wrap_model env args td w1 = (Inr (), w2) \<and>
     make_train_loader env args nj td ts tc w2 = (Inr (), w3) \<and>
     make_valid_loader env args nj vd ts vs vc w3 = (Inr (), w4) \<and>
     set_train_state env TRAIN_START w5 = (Inr (), w') \<and>
     trace w1 = trace w \<and> current_epoch (self w1) = current_epoch (self w) \<and>
     dispatched (trace w5) = dispatched (trace w4) \<and>
     epoch_marks (trace w5) = epoch_marks (trace w4) \<and>
     current_epoch (self w5) = current_epoch (self w4) \<and>
     priv_callback_runner (self w5) = Some (case cbs of None \<Rightarrow> [] | Some c \<Rightarrow> c) \<and>
     fp16 (self w5) = args_fp16 args"
  using assms unfolding init_tez_def Let_def
  apply (cases "args_fp16 args"; clarsimp)
  subgoal
    by (intro exI conjI, assumption, assumption, assumption, assumption) simp_all
  subgoal
    by (intro exI conjI, assumption, assumption, assumption, assumption) simp_all
  done

lemma init_tez_dispatch:
  assumes fr: "callbacks_frame env"
    and eq: "init_tez env args td vd ts vs cbs tc vc w = (Inr u, w')"
  shows "dispatched (trace w') = dispatched (trace w) @ [TRAIN_START] \<and>
     epoch_marks (trace w') = epoch_marks (trace w) \<and>
     current_epoch (self w') = current_epoch (self w) \<and>
     priv_callback_runner (self w') = Some (case cbs of None \<Rightarrow> [] | Some c \<Rightarrow> c) \<and>
     fp16 (self w') = args_fp16 args"
proof -
  from init_tez_parts [OF eq] obtain nj w1 w2 w3 w4 w5 where
    wm: "wrap_model env args td w1 = (Inr (), w2)" and
    tl: "make_train_loader env args nj td ts tc w2 = (Inr (), w3)" and
    vl: "make_valid_loader env args nj vd ts vs vc w3 = (Inr (), w4)" and
    st: "set_train_state env TRAIN_START w5 = (Inr (), w')" and
    p1: "trace w1 = trace w" "current_epoch (self w1) = current_epoch (self w)" and
    p5: "dispatched (trace w5) = dispatched (trace w4)"
        "epoch_marks (trace w5) = epoch_marks (trace w4)"
        "current_epoch (self w5) = current_epoch (self w4)" and
    r5: "priv_callback_runner (self w5) = Some (case cbs of None \<Rightarrow> [] | Some c \<Rightarrow> c)" and
    f5: "fp16 (self w5) = args_fp16 args"
    by blast
  note c2 = calm_Inr(1) [OF wm]
  note c3 = calm_Inr(2) [OF tl]
  note c4 = calm_Inr(3) [OF vl]
  note a = set_train_state_dispatch [OF fr r5 st]
  note af = advance_fields [OF a]
  from c2 c3 c4 p1 p5 a af r5 f5 show ?thesis
    by (simp add: advance_def)
qed

lemma select_device_args:
  "select_device env args w = (Inr a, w') \<Longrightarrow>
   a = (if args_device args = ''tpu'' then args\<lparr>args_fp16 := False\<rparr> else args)"
  by (auto simp: select_device_def split: if_splits)

lemma fit_parts:
  assumes "fit env td args vd ts vs cbs tc vc w = (Inr u, w')"
  shows "\<exists>w1 a w2 w3 w4 w5.
     select_device env args w1 = (Inr a, w2) \<and>
     init_tez env a td vd ts vs cbs tc vc w3 = (Inr (), w4) \<and>
     fit_epochs env (nat (args_epochs a)) w4 = (Inr (), w5) \<and>
     set_train_state env TRAIN_END w5 = (Inr (), w') \<and>
     trace w1 = trace w \<and> current_epoch (self w1) = current_epoch (self w) \<and>
     dispatched (trace w3) = dispatched (trace w2) \<and>
     epoch_marks (trace w3) = epoch_marks (trace w2) \<and>
     current_epoch (self w3) = current_epoch (self w2)"
  using assms unfolding fit_def
  apply clarsimp
  subgoal
    by (intro exI conjI, assumption, assumption, assumption, assumption) simp_all
  done

lemma fit_dispatch:
  assumes fr: "callbacks_frame env"
    and eq: "fit env td args vd ts vs cbs tc vc w = (Inr u, w')"
  shows "\<exists>wl. \<exists>m\<le>nat (args_epochs args).
     set_train_state env TRAIN_END wl = (Inr (), w') \<and>
     dispatched (trace w') = dispatched (trace w) @ [TRAIN_START] @
       concat (replicate m (epoch_train_states (n_train_batches env (self w'))
                              (n_valid_batches env (self w')))) @ [TRAIN_END] \<and>
     epoch_marks (trace w') = epoch_marks (trace w) @
       concat (replicate m (epoch_functions (n_valid_batches env (self w')))) \<and>
     (m = nat (args_epochs args) \<and>
        current_epoch (self w') = current_epoch (self w) + int (nat (args_epochs args)) \<and>
        (nat (args_epochs args) = 0 \<or> priv_model_state (self wl) \<noteq> Some END) \<or>
      0 < m \<and> current_epoch (self w') = current_epoch (self w) + int m - 1 \<and>
        priv_model_state (self wl) = Some END)"
proof -
  from fit_parts [OF eq] obtain w1 a w2 w3 w4 w5 where
    sd: "select_device env args w1 = (Inr a, w2)" and
    it: "init_tez env a td vd ts vs cbs tc vc w3 = (Inr (), w4)" and
    fe: "fit_epochs env (nat (args_epochs a)) w4 = (Inr (), w5)" and
    st: "set_train_state env TRAIN_END w5 = (Inr (), w')" and
    p1: "trace w1 = trace w" "current_epoch (self w1) = current_epoch (self w)" and
    p3: "dispatched (trace w3) = dispatched (trace w2)"
        "epoch_marks (trace w3) = epoch_marks (trace w2)"
        "current_epoch (self w3) = current_epoch (self w2)"
    by blast
  have ep: "args_epochs a = args_epochs args"
    using select_device_args [OF sd] by (simp split: if_splits)
  note c2 = calm_Inr(4) [OF sd]
  note i4 = init_tez_dispatch [OF fr it]
  let ?cbs = "case cbs of None \<Rightarrow> [] | Some c \<Rightarrow> c"
  have r4: "priv_callback_runner (self w4) = Some ?cbs"
    using i4 by simp
  from fit_epochs_dispatch [OF fr r4 fe, unfolded ep] obtain m where
    m: "m \<le> nat (args_epochs args)" and
    d: "dispatched (trace w5) = dispatched (trace w4) @
          concat (replicate m (epoch_train_states (n_train_batches env (self w4))
                                 (n_valid_batches env (self w4))))" and
    e: "epoch_marks (trace w5) = epoch_marks (trace w4) @
          concat (replicate m (epoch_functions (n_valid_batches env (self w4))))" and
    k: "priv_callback_runner (self w5) = Some ?cbs"
       "train_loader (self w5) = train_loader (self w4)"
       "valid_loader (self w5) = valid_loader (self w4)" and
    c: "m = nat (args_epochs args) \<and>
          current_epoch (self w5) = current_epoch (self w4) + int (nat (args_epochs args)) \<and>
          (nat (args_epochs args) = 0 \<or> priv_model_state (self w5) \<noteq> Some END) \<or>
        0 < m \<and> current_epoch (self w5) = current_epoch (self w4) + int m - 1 \<and>
          priv_model_state (self w5) = Some END"
    by blast
  note a = set_train_state_dispatch [OF fr k(1) st]
  note af = advance_fields [OF a]
  have nb: "n_train_batches env (self w') = n_train_batches env (self w4)"
    "n_valid_batches env (self w') = n_valid_batches env (self w4)"
    using af k by (simp_all add: n_train_batches_def n_valid_batches_def)
  have ce: "current_epoch (self w4) = current_epoch (self w)"
    using i4 p3 c2 p1 by simp
  have "dispatched (trace w') = dispatched (trace w) @ [TRAIN_START] @
       concat (replicate m (epoch_train_states (n_train_batches env (self w'))
                              (n_valid_batches env (self w')))) @ [TRAIN_END]"
    using a d i4 p3 c2 p1 by (simp add: advance_def nb)
  moreover have "epoch_marks (trace w') = epoch_marks (trace w) @
       concat (replicate m (epoch_functions (n_valid_batches env (self w'))))"
    using a e i4 p3 c2 p1 by (simp add: advance_def nb)
  moreover have "m = nat (args_epochs args) \<and>
        current_epoch (self w') = current_epoch (self w) + int (nat (args_epochs args)) \<and>
        (nat (args_epochs args) = 0 \<or> priv_model_state (self w5) \<noteq> Some END) \<or>
      0 < m \<and> current_epoch (self w') = current_epoch (self w) + int m - 1 \<and>
        priv_model_state (self w5) = Some END"
    using c af(4) ce by simp
  ultimately show ?thesis
    using m st by blast
qed


subsection \<open>The epoch loop and the dispatch of callbacks\<close>

lemma frame_self: "\<exists>st. (s::Model) = s\<lparr>priv_model_state := st\<rparr>"
  by (rule exI [of _ "priv_model_state s"]) simp

lemma callbacks_frame_env0: "callbacks_frame env0"
  unfolding callbacks_frame_def env0_def
  by (simp add: frame_self)

lemma callbacks_frame_env_stop: "callbacks_frame env_stop"
  unfolding callbacks_frame_def env_stop_def env0_def
  by (auto simp: frame_self)

lemma callbacks_frame_env_empty_valid: "callbacks_frame env_empty_valid"
  unfolding callbacks_frame_def env_empty_valid_def env0_def
  by (simp add: frame_self)

lemma epoch_functions_truthy:
  "epoch_functions (n_valid_batches env s) =
     (if loader_truthy env (valid_loader s) then [TRAIN, VALID] else [TRAIN])"
  by (simp add: epoch_functions_def n_valid_batches_def)

text \<open>
  C3 (as amended): let the callbacks change nothing on the object but its model-lifecycle
  state. When the epoch loop of \<open>fit\<close> (lines 421-441), entered for \<open>n\<close> epochs once the
  callback runner is set, returns, it has run \<open>m\<close> passes for some \<open>m\<close> up to \<open>n\<close>:
  \<open>train_one_epoch\<close> has run \<open>m\<close> times, each time followed by \<open>validate_one_epoch\<close> exactly
  when the valid loader is true, that is when there is one and it yields at least one
  batch. Either no pass ended with the model-lifecycle state "end": then \<open>m = n\<close> and
  \<open>current_epoch\<close> has grown by \<open>n\<close>; or the last pass, and no earlier one, ended with that
  state: then \<open>current_epoch\<close> has grown by \<open>m - 1\<close> only. A call of \<open>fit\<close> that returns has
  run this loop for \<open>epochs\<close> epochs, from the \<open>current_epoch\<close> it was called with, and has
  run no epoch function outside of it.
\<close>

theorem fit_runs_epochs:
  "(callbacks_frame env \<and> priv_callback_runner (self w) = Some cbs \<and>
    fit_epochs env n w = (Inr u, w') \<longrightarrow>
      (\<exists>m\<le>n.
         epoch_marks (trace w') = epoch_marks (trace w) @
           concat (replicate m
             (if loader_truthy env (valid_loader (self w)) then [TRAIN, VALID] else [TRAIN])) \<and>
         (m = n \<and> current_epoch (self w') = current_epoch (self w) + int n \<and>
            (n = 0 \<or> priv_model_state (self w') \<noteq> Some END) \<or>
          0 < m \<and> current_epoch (self w') = current_epoch (self w) + int m - 1 \<and>
            priv_model_state (self w') = Some END))) \<and>
   (callbacks_frame env \<and> fit env td args vd ts vs cbs' tc vc w = (Inr u, w') \<longrightarrow>
      (\<exists>wl. \<exists>m\<le>nat (args_epochs args).
         set_train_state env TRAIN_END wl = (Inr (), w') \<and>
         epoch_marks (trace w') = epoch_marks (trace w) @
           concat (replicate m
             (if loader_truthy env (valid_loader (self w')) then [TRAIN, VALID] else [TRAIN])) \<and>
         (m = nat (args_epochs args) \<and>
            current_epoch (self w') = current_epoch (self w) + int (nat (args_epochs args)) \<and>
            (nat (args_epochs args) = 0 \<or> priv_model_state (self wl) \<noteq> Some END) \<or>
          0 < m \<and> current_epoch (self w') = current_epoch (self w) + int m - 1 \<and>
            priv_model_state (self wl) = Some END)))"
proof (intro conjI impI; elim conjE)
  assume fr: "callbacks_frame env" and r: "priv_callback_runner (self w) = Some cbs"
    and fe: "fit_epochs env n w = (Inr u, w')"
  from fit_epochs_dispatch [OF fr r fe]
  show "\<exists>m\<le>n.
         epoch_marks (trace w') = epoch_marks (trace w) @
           concat (replicate m
             (if loader_truthy env (valid_loader (self w)) then [TRAIN, VALID] else [TRAIN])) \<and>
         (m = n \<and> current_epoch (self w') = current_epoch (self w) + int n \<and>
            (n = 0 \<or> priv_model_state (self w') \<noteq> Some END) \<or>
          0 < m \<and> current_epoch (self w') = current_epoch (self w) + int m - 1 \<and>
            priv_model_state (self w') = Some END)"
    unfolding epoch_functions_truthy by blast
next
  assume fr: "callbacks_frame env"
    and ft: "fit env td args vd ts vs cbs' tc vc w = (Inr u, w')"
  from fit_dispatch [OF fr ft]
  show "\<exists>wl. \<exists>m\<le>nat (args_epochs args).
         set_train_state env TRAIN_END wl = (Inr (), w') \<and>
         epoch_marks (trace w') = epoch_marks (trace w) @
           concat (replicate m
             (if loader_truthy env (valid_loader (self w')) then [TRAIN, VALID] else [TRAIN])) \<and>
         (m = nat (args_epochs args) \<and>
            current_epoch (self w') = current_epoch (self w) + int (nat (args_epochs args)) \<and>
            (nat (args_epochs args) = 0 \<or> priv_model_state (self wl) \<noteq> Some END) \<or>
          0 < m \<and> current_epoch (self w') = current_epoch (self w) + int m - 1 \<and>
            priv_model_state (self wl) = Some END)"
    unfolding epoch_functions_truthy by blast
qed

theorem fit_runs_epochs_witness:
  "callbacks_frame env0 \<and>
   fst (fit env0 0 args0 (Some 1) None None None None None w0) = Inr () \<and>
   epoch_marks (trace (snd (fit env0 0 args0 (Some 1) None None None None None w0))) =
     [TRAIN, VALID, TRAIN, VALID] \<and>
   current_epoch (self (snd (fit env0 0 args0 (Some 1) None None None None None w0))) = 2 \<and>
   priv_callback_runner
     (self (snd (init_tez env0 args0 0 (Some 1) None None None None None w0))) = Some [] \<and>
   fst (fit_epochs env0 2 (snd (init_tez env0 args0 0 (Some 1) None None None None None w0))) =
     Inr () \<and>
   epoch_marks (trace (snd (fit_epochs env0 2
       (snd (init_tez env0 args0 0 (Some 1) None None None None None w0))))) =
     [TRAIN, VALID, TRAIN, VALID] \<and>
   callbacks_frame env_stop \<and>
   fst (fit env_stop 0 args0 (Some 1) None None None None None w0) = Inr () \<and>
   epoch_marks (trace (snd (fit env_stop 0 args0 (Some 1) None None None None None w0))) =
     [TRAIN, VALID] \<and>
   current_epoch (self (snd (fit env_stop 0 args0 (Some 1) None None None None None w0))) = 0"
proof -
  let ?r = "fit env0 0 args0 (Some 1) None None None None None w0"
  let ?s = "fit env_stop 0 args0 (Some 1) None None None None None w0"
  have a: "fst ?r = Inr ()" by code_simp
  have b: "epoch_marks (trace (snd ?r)) = [TRAIN, VALID, TRAIN, VALID]" by code_simp
  have c: "current_epoch (self (snd ?r)) = 2" by code_simp
  have a': "fst ?s = Inr ()" by code_simp
  have b': "epoch_marks (trace (snd ?s)) = [TRAIN, VALID]" by code_simp
  have c': "current_epoch (self (snd ?s)) = 0" by code_simp
  let ?wi = "snd (init_tez env0 args0 0 (Some 1) None None None None None w0)"
  have d: "priv_callback_runner (self ?wi) = Some []" by code_simp
  have e: "fst (fit_epochs env0 2 ?wi) = Inr ()" by code_simp
  have f: "epoch_marks (trace (snd (fit_epochs env0 2 ?wi))) = [TRAIN, VALID, TRAIN, VALID]"
    by code_simp
  show ?thesis
    using fit_runs_epochs [of env0 ?wi "[]" 2 "()" "snd (fit_epochs env0 2 ?wi)"] d e f
      fit_runs_epochs [of env0 w0 "[]" 0 "()" "snd ?r" 0 args0 "Some 1" None None None None None]
      fit_runs_epochs [of env_stop w0 "[]" 0 "()" "snd ?s" 0 args0 "Some 1" None None None None None]
      callbacks_frame_env0 callbacks_frame_env_stop a b c a' b' c'
    by simp
qed

theorem fit_empty_valid_loader_counterexample:
  "fst (fit env_empty_valid 0 args0 (Some 1) None None None None None w0) = Inr () \<and>
   valid_loader (self (snd (fit env_empty_valid 0 args0 (Some 1) None None None None None w0))) =
     Some \<lparr>ld_dataset = 1, ld_batch_size = 8, ld_num_workers = 4, ld_sampler = None,
           ld_shuffle = True, ld_collate_fn = None\<rparr> \<and>
   epoch_marks (trace (snd (fit env_empty_valid 0 args0 (Some 1) None None None None None w0))) =
     [TRAIN, TRAIN] \<and>
   current_epoch (self (snd (fit env_empty_valid 0 args0 (Some 1) None None None None None w0))) = 2"
proof -
  let ?r = "fit env_empty_valid 0 args0 (Some 1) None None None None None w0"
  have "fst ?r = Inr ()" by code_simp
  moreover have "valid_loader (self (snd ?r)) =
     Some \<lparr>ld_dataset = 1, ld_batch_size = 8, ld_num_workers = 4, ld_sampler = None,
           ld_shuffle = True, ld_collate_fn = None\<rparr>" by code_simp
  moreover have "epoch_marks (trace (snd ?r)) = [TRAIN, TRAIN]" by code_simp
  moreover have "current_epoch (self (snd ?r)) = 2" by code_simp
  ultimately show ?thesis by simp
qed


lemma still_save:
  "inv_err (\<lambda>v. dispatched (trace v) = D) (\<lambda>_ v. dispatched (trace v) = D)
     (save env path wo)"
  unfolding save_def model_state_dict_def torch_save_def xm_save_def Let_def
  by (intro inv_err_struct inv_err_prims) (auto simp: inv_err_def)

lemma still_load:
  "inv_err (\<lambda>v. dispatched (trace v) = D) (\<lambda>_ v. dispatched (trace v) = D)
     (load env path wo dev)"
  unfolding load_def
  by (intro inv_err_struct inv_err_prims) auto

lemma inv_err_snd: "inv_err I (\<lambda>_. I) m \<Longrightarrow> I w \<Longrightarrow> I (snd (m w))"
  by (auto dest!: inv_errD split: prod.splits sum.splits)

lemma set_train_state_runner:
  assumes "priv_callback_runner (self w) = Some cbs"
  shows "set_train_state env v w =
           callback_runner_call env cbs v (w\<lparr>self := (self w)\<lparr>priv_train_state := Some v\<rparr>\<rparr>)"
    "\<exists>r. trace (snd (set_train_state env v w)) = trace w @ [(Callback_runner_call cbs v, r)]"
  using assms
  by (auto simp: set_train_state_def callback_runner_call_def prog_defs split: prod.splits)

lemma set_train_state_no_runner:
  assumes "priv_callback_runner (self w) = None"
  shows "set_train_state env v w = (Inr (), w\<lparr>self := (self w)\<lparr>priv_train_state := Some v\<rparr>\<rparr>)"
  using assms
  by (simp add: set_train_state_def prog_defs)

text \<open>
  C5: once the callback runner is set, an assignment to \<open>train_state\<close> stores the value and
  invokes the runner, once, with that value, whether the runner returns or raises; before
  the runner is set it only stores the value. An assignment to \<open>model_state\<close> only stores
  the value. The step functions, \<open>update_metrics\<close>, \<open>save\<close> and \<open>load\<close> never invoke the
  runner, whether they return or raise. And in a call of \<open>fit\<close> that returns, with
  callbacks that change nothing on the object but its model-lifecycle state, the runner
  has been invoked with exactly the training states that \<open>fit\<close> assigns, in program
  order: TRAIN_START, then for each pass of the epoch loop the states of one epoch with
  one pair of step states for every batch, then TRAIN_END.
\<close>

theorem train_state_drives_dispatch:
  "(priv_callback_runner (self w) = Some cbs \<longrightarrow>
      set_train_state env v w =
        callback_runner_call env cbs v (w\<lparr>self := (self w)\<lparr>priv_train_state := Some v\<rparr>\<rparr>) \<and>
      (\<exists>r. trace (snd (set_train_state env v w)) =
             trace w @ [(Callback_runner_call cbs v, r)])) \<and>
   (priv_callback_runner (self w) = None \<longrightarrow>
      set_train_state env v w =
        (Inr (), w\<lparr>self := (self w)\<lparr>priv_train_state := Some v\<rparr>\<rparr>)) \<and>
   set_model_state st w = (Inr (), w\<lparr>self := (self w)\<lparr>priv_model_state := Some st\<rparr>\<rparr>) \<and>
   dispatched (trace (snd (train_one_step env data w))) = dispatched (trace w) \<and>
   dispatched (trace (snd (validate_one_step env data w))) = dispatched (trace w) \<and>
   dispatched (trace (snd (update_metrics losses monitor w))) = dispatched (trace w) \<and>
   dispatched (trace (snd (save env path wo w))) = dispatched (trace w) \<and>
   dispatched (trace (snd (load env path wo dev w))) = dispatched (trace w) \<and>
   (callbacks_frame env \<and> fit env td args vd ts vs cbs' tc vc w = (Inr u, w') \<longrightarrow>
      (\<exists>m\<le>nat (args_epochs args).
         dispatched (trace w') = dispatched (trace w) @ [TRAIN_START] @
           concat (replicate m (epoch_train_states (n_train_batches env (self w'))
                                  (n_valid_batches env (self w')))) @
           [TRAIN_END]))"
proof (intro conjI impI)
  assume "priv_callback_runner (self w) = Some cbs"
  from set_train_state_runner [OF this]
  show "set_train_state env v w =
        callback_runner_call env cbs v (w\<lparr>self := (self w)\<lparr>priv_train_state := Some v\<rparr>\<rparr>)"
    and "\<exists>r. trace (snd (set_train_state env v w)) =
             trace w @ [(Callback_runner_call cbs v, r)]"
    by blast+
next
  assume "priv_callback_runner (self w) = None"
  then show "set_train_state env v w =
        (Inr (), w\<lparr>self := (self w)\<lparr>priv_train_state := Some v\<rparr>\<rparr>)"
    by (rule set_train_state_no_runner)
next
  show "set_model_state st w = (Inr (), w\<lparr>self := (self w)\<lparr>priv_model_state := Some st\<rparr>\<rparr>)"
    by (simp add: set_model_state_def prog_defs)
next
  show "dispatched (trace (snd (train_one_step env data w))) = dispatched (trace w)"
    using inv_err_snd [OF quiet_train_one_step quiet_refl] by (simp add: quiet_def)
next
  show "dispatched (trace (snd (validate_one_step env data w))) = dispatched (trace w)"
    using inv_err_snd [OF quiet_validate_one_step quiet_refl] by (simp add: quiet_def)
next
  show "dispatched (trace (snd (update_metrics losses monitor w))) = dispatched (trace w)"
    using inv_err_snd [OF quiet_update_metrics quiet_refl] by (simp add: quiet_def)
next
  show "dispatched (trace (snd (save env path wo w))) = dispatched (trace w)"
    using inv_err_snd [OF still_save refl] .
next
  show "dispatched (trace (snd (load env path wo dev w))) = dispatched (trace w)"
    using inv_err_snd [OF still_load refl] .
next
  assume "callbacks_frame env \<and> fit env td args vd ts vs cbs' tc vc w = (Inr u, w')"
  then have fr: "callbacks_frame env"
    and ft: "fit env td args vd ts vs cbs' tc vc w = (Inr u, w')"
    by simp_all
  from fit_dispatch [OF fr ft]
  show "\<exists>m\<le>nat (args_epochs args).
         dispatched (trace w') = dispatched (trace w) @ [TRAIN_START] @
           concat (replicate m (epoch_train_states (n_train_batches env (self w'))
                                  (n_valid_batches env (self w')))) @
           [TRAIN_END]"
    by blast
qed

theorem train_state_drives_dispatch_witness:
  "priv_callback_runner (self (w0\<lparr>self := (self w0)\<lparr>priv_callback_runner := Some [1]\<rparr>\<rparr>)) =
     Some [1] \<and>
   set_train_state env0 EPOCH_START (w0\<lparr>self := (self w0)\<lparr>priv_callback_runner := Some [1]\<rparr>\<rparr>) =
     (Inr (), w0\<lparr>self := (self w0)\<lparr>priv_callback_runner := Some [1],
                      priv_train_state := Some EPOCH_START\<rparr>,
                  trace := [(Callback_runner_call [1] EPOCH_START, None)]\<rparr>) \<and>
   callbacks_frame env0 \<and>
   fst (fit env0 0 args0 (Some 1) None None None None None w0) = Inr () \<and>
   dispatched (trace (snd (fit env0 0 args0 (Some 1) None None None None None w0))) =
     [TRAIN_START,
      EPOCH_START, TRAIN_EPOCH_START, TRAIN_STEP_START, TRAIN_STEP_END, TRAIN_STEP_START,
      TRAIN_STEP_END, TRAIN_EPOCH_END, VALID_EPOCH_START, VALID_STEP_START, VALID_STEP_END,
      VALID_EPOCH_END, EPOCH_END,
      EPOCH_START, TRAIN_EPOCH_START, TRAIN_STEP_START, TRAIN_STEP_END, TRAIN_STEP_START,
      TRAIN_STEP_END, TRAIN_EPOCH_END, VALID_EPOCH_START, VALID_STEP_START, VALID_STEP_END,
      VALID_EPOCH_END, EPOCH_END,
      TRAIN_END]"
proof -
  let ?w1 = "w0\<lparr>self := (self w0)\<lparr>priv_callback_runner := Some [1]\<rparr>\<rparr>"
  let ?r = "fit env0 0 args0 (Some 1) None None None None None w0"
  have a: "fst ?r = Inr ()" by code_simp
  have b: "dispatched (trace (snd ?r)) =
     [TRAIN_START,
      EPOCH_START, TRAIN_EPOCH_START, TRAIN_STEP_START, TRAIN_STEP_END, TRAIN_STEP_START,
      TRAIN_STEP_END, TRAIN_EPOCH_END, VALID_EPOCH_START, VALID_STEP_START, VALID_STEP_END,
      VALID_EPOCH_END, EPOCH_END,
      EPOCH_START, TRAIN_EPOCH_START, TRAIN_STEP_START, TRAIN_STEP_END, TRAIN_STEP_START,
      TRAIN_STEP_END, TRAIN_EPOCH_END, VALID_EPOCH_START, VALID_STEP_START, VALID_STEP_END,
      VALID_EPOCH_END, EPOCH_END,
      TRAIN_END]" by code_simp
  have c: "set_train_state env0 EPOCH_START ?w1 =
     (Inr (), w0\<lparr>self := (self w0)\<lparr>priv_callback_runner := Some [1],
                      priv_train_state := Some EPOCH_START\<rparr>,
                  trace := [(Callback_runner_call [1] EPOCH_START, None)]\<rparr>)"
    by (simp add: set_train_state_def callback_runner_call_def prog_defs env0_def w0_def)
  show ?thesis
    using train_state_drives_dispatch [of ?w1 "[1]" env0 EPOCH_START]
      train_state_drives_dispatch [of w0 "[]" env0 EPOCH_START TRAIN "[]" "[]" "[]" "''p''" False
        "''cpu''" 0 args0 "Some 1" None None None None None "()" "snd ?r"]
      callbacks_frame_env0 a b c
    by simp
qed


subsection \<open>Mixed precision on a TPU\<close>






























subsection \<open>Gradient accumulation\<close>

lemma gradients_held_append:
  "gradients_held g (xs @ ys) = gradients_held (gradients_held g xs) ys"
  by (induction xs arbitrary: g) (auto split: call.splits)

lemma batches_per_step_append:
  "batches_per_step g (xs @ ys) =
     batches_per_step g xs @ batches_per_step (gradients_held g xs) ys"
  by (induction xs arbitrary: g) (auto split: call.splits)

lemma backward_losses_append:
  "backward_losses (xs @ ys) = backward_losses xs @ backward_losses ys"
  by (induction xs) (auto split: call.splits)

lemmas grad_append = gradients_held_append batches_per_step_append backward_losses_append

lemma neutral_name_to_metric:
  "inv_err (\<lambda>v. gradients_held g (map fst (trace v)) = h \<and>
                batches_per_step g (map fst (trace v)) = b \<and>
                backward_losses (map fst (trace v)) = l)
     (\<lambda>_ _. True) (name_to_metric n)"
  unfolding name_to_metric_def Let_def
  by (intro inv_err_struct inv_err_prims) (auto simp: grad_append)

lemma neutral_step_scheduler:
  "inv_err (\<lambda>v. gradients_held g (map fst (trace v)) = h \<and>
                batches_per_step g (map fst (trace v)) = b \<and>
                backward_losses (map fst (trace v)) = l)
     (\<lambda>_ _. True) (step_scheduler env after)"
  unfolding step_scheduler_def
  by (intro inv_err_struct inv_err_prims neutral_name_to_metric) (auto simp: grad_append)

lemma neutral_model_fn:
  "inv_err (\<lambda>v. gradients_held g (map fst (trace v)) = h \<and>
                batches_per_step g (map fst (trace v)) = b \<and>
                backward_losses (map fst (trace v)) = l)
     (\<lambda>_ _. True) (model_fn env data)"
  unfolding model_fn_def forward_def tensor_mean_def
  by (intro inv_err_struct inv_err_prims) (auto simp: grad_append)

lemmas neutral_Inr =
  neutral_step_scheduler [THEN inv_err_Inr, OF conjI [OF refl conjI [OF refl refl]]]
  neutral_model_fn [THEN inv_err_Inr, OF conjI [OF refl conjI [OF refl refl]]]

lemma train_one_step_blocks:
  assumes "train_one_step env data w = (Inr (loss, sm), w')"
  obtains w1 w2 w3 w4 w5 w6 out loss0 rr where
    "(if accumulation_steps (self w) = 1 \<and> batch_index (self w) = 0 then
        bind (attr (model (self w)) ''zero_grad'') (\<lambda>m. host env (Model_zero_grad m))
      else ret ()) w = (Inr (), w1)"
    "model_fn env data w1 = (Inr (out, loss0, sm), w2)"
    "tensor_div env loss0 (accumulation_steps (self w)) w2 = (Inr loss, w3)"
    "(if fp16 (self w) then
        bind (attr (scaler (self w)) ''scale'') (\<lambda>sc. host env (Scaler_scale_backward sc loss))
      else host env (Backward loss)) w3 = (Inr (), w4)"
    "(case clip_grad_norm (self w) of
        None \<Rightarrow> ret ()
      | Some c \<Rightarrow> bind (attr (model (self w)) ''parameters'') (\<lambda>m. host env (Clip_grad_norm m c)))
       w4 = (Inr (), w5)"
    "py_mod (batch_index (self w) + 1) (accumulation_steps (self w)) w5 = (Inr rr, w6)"
    "(if rr = 0 then
        seq (if fp16 (self w) then
               bind (attr (scaler (self w)) ''step'') (\<lambda>sc.
                 seq (host env (Scaler_step sc (optimizer (self w)))) (host env (Scaler_update sc)))
             else if using_tpu (self w) then host env (Xm_optimizer_step (optimizer (self w)))
             else bind (attr (optimizer (self w)) ''step'') (\<lambda>opt. host env (Optimizer_step opt)))
       (seq (step_scheduler env ''batch'')
            (if batch_index (self w) > 0 then
               bind (attr (model (self w)) ''zero_grad'') (\<lambda>m. host env (Model_zero_grad m))
             else ret ()))
      else ret ()) w6 = (Inr (), w')"
  using assms unfolding train_one_step_def by auto

text \<open>
  C4: a call of \<open>train_one_step\<close> that returns, with \<open>accumulation_steps = k\<close> on the batch
  of index \<open>i\<close>, has handed to exactly one backward pass the loss it returns, which is the
  batch loss divided by \<open>k\<close>; it has made an optimizer step exactly when
  \<open>(i + 1) mod k = 0\<close>, and none otherwise. But the gradients are cleared after the
  optimizer step only when \<open>i > 0\<close> (line 136), and before the backward pass only when
  \<open>k = 1\<close> and \<open>i = 0\<close> (line 110): after the step of batch 0, which steps only when
  \<open>k = 1\<close>, the gradients still hold that batch, so the step of batch 1 is made on the sum of
  the gradients of two batches. In the statement, \<open>g\<close> is the number of backward passes
  the gradients hold before the trace begins.
\<close>

theorem train_one_step_gradients:
  "accumulation_steps (self w) = k \<and> batch_index (self w) = i \<and>
   train_one_step env data w = (Inr (loss, sm), w') \<longrightarrow>
     (\<exists>t. loss = Div t k) \<and>
     backward_losses (map fst (trace w')) = backward_losses (map fst (trace w)) @ [loss] \<and>
     batches_per_step g (map fst (trace w')) =
       batches_per_step g (map fst (trace w)) @
       (if (i + 1) mod k = 0
        then [Suc (if k = 1 \<and> i = 0 then 0 else gradients_held g (map fst (trace w)))]
        else []) \<and>
     gradients_held g (map fst (trace w')) =
       (if (i + 1) mod k = 0 \<and> 0 < i then 0
        else Suc (if k = 1 \<and> i = 0 then 0 else gradients_held g (map fst (trace w))))"
proof (intro impI, elim conjE)
  assume k: "accumulation_steps (self w) = k" and i: "batch_index (self w) = i"
    and eq: "train_one_step env data w = (Inr (loss, sm), w')"
  let ?G = "\<lambda>v. gradients_held g (map fst (trace v))"
  let ?B = "\<lambda>v. batches_per_step g (map fst (trace v))"
  let ?L = "\<lambda>v. backward_losses (map fst (trace v))"
  let ?h = "if k = 1 \<and> i = 0 then 0 else ?G w"
  from eq obtain w1 w2 w3 w4 w5 w6 out loss0 rr where
    zg: "(if accumulation_steps (self w) = 1 \<and> batch_index (self w) = 0 then
        bind (attr (model (self w)) ''zero_grad'') (\<lambda>m. host env (Model_zero_grad m))
      else ret ()) w = (Inr (), w1)" and
    mf: "model_fn env data w1 = (Inr (out, loss0, sm), w2)" and
    dv: "tensor_div env loss0 (accumulation_steps (self w)) w2 = (Inr loss, w3)" and
    bw: "(if fp16 (self w) then
        bind (attr (scaler (self w)) ''scale'') (\<lambda>sc. host env (Scaler_scale_backward sc loss))
      else host env (Backward loss)) w3 = (Inr (), w4)" and
    cl: "(case clip_grad_norm (self w) of
        None \<Rightarrow> ret ()
      | Some c \<Rightarrow> bind (attr (model (self w)) ''parameters'') (\<lambda>m. host env (Clip_grad_norm m c)))
       w4 = (Inr (), w5)" and
    pm: "py_mod (batch_index (self w) + 1) (accumulation_steps (self w)) w5 = (Inr rr, w6)" and
    st: "(if rr = 0 then
        seq (if fp16 (self w) then
               bind (attr (scaler (self w)) ''step'') (\<lambda>sc.
                 seq (host env (Scaler_step sc (optimizer (self w)))) (host env (Scaler_update sc)))
             else if using_tpu (self w) then host env (Xm_optimizer_step (optimizer (self w)))
             else bind (attr (optimizer (self w)) ''step'') (\<lambda>opt. host env (Optimizer_step opt)))
       (seq (step_scheduler env ''batch'')
            (if batch_index (self w) > 0 then
               bind (attr (model (self w)) ''zero_grad'') (\<lambda>m. host env (Model_zero_grad m))
             else ret ()))
      else ret ()) w6 = (Inr (), w')"
    by (rule train_one_step_blocks)
  have o1: "?G w1 = ?h \<and> ?B w1 = ?B w \<and> ?L w1 = ?L w"
    using zg k i by (auto simp: grad_append split: if_splits)
  have o2: "?G w2 = ?h \<and> ?B w2 = ?B w \<and> ?L w2 = ?L w"
    using neutral_Inr(2) [OF mf, of g] o1 by simp
  have ls: "loss = Div loss0 k"
    using dv k by (auto simp: tensor_div_def)
  have o3: "?G w3 = ?h \<and> ?B w3 = ?B w \<and> ?L w3 = ?L w"
    using dv o2 by (auto simp: tensor_div_def grad_append)
  have o4: "?G w4 = Suc ?h \<and> ?B w4 = ?B w \<and> ?L w4 = ?L w @ [loss]"
    using bw o3 by (auto simp: grad_append split: if_splits)
  have o5: "?G w5 = Suc ?h \<and> ?B w5 = ?B w \<and> ?L w5 = ?L w @ [loss]"
    using cl o4 by (auto simp: grad_append split: option.splits)
  have r: "rr = (i + 1) mod k" and o6: "w6 = w5"
    using pm k i by (auto simp: py_mod_def split: if_splits)
  have o7: "?G w' = (if (i + 1) mod k = 0 \<and> 0 < i then 0 else Suc ?h) \<and>
            ?B w' = ?B w @ (if (i + 1) mod k = 0 then [Suc ?h] else []) \<and>
            ?L w' = ?L w @ [loss]"
  proof (cases "rr = 0")
    case False
    with st r o5 o6 show ?thesis by simp
  next
    case True
    with st obtain w7 w8 where
      sp: "(if fp16 (self w) then
               bind (attr (scaler (self w)) ''step'') (\<lambda>sc.
                 seq (host env (Scaler_step sc (optimizer (self w)))) (host env (Scaler_update sc)))
             else if using_tpu (self w) then host env (Xm_optimizer_step (optimizer (self w)))
             else bind (attr (optimizer (self w)) ''step'') (\<lambda>opt. host env (Optimizer_step opt)))
            w6 = (Inr (), w7)" and
      ss: "step_scheduler env ''batch'' w7 = (Inr (), w8)" and
      z: "(if batch_index (self w) > 0 then
               bind (attr (model (self w)) ''zero_grad'') (\<lambda>m. host env (Model_zero_grad m))
             else ret ()) w8 = (Inr (), w')"
      by auto
    have p7: "?G w7 = Suc ?h \<and> ?B w7 = ?B w @ [Suc ?h] \<and> ?L w7 = ?L w @ [loss]"
      using sp o5 o6 by (auto simp: grad_append split: if_splits)
    have p8: "?G w8 = Suc ?h \<and> ?B w8 = ?B w @ [Suc ?h] \<and> ?L w8 = ?L w @ [loss]"
      using neutral_Inr(1) [OF ss, of g] p7 by simp
    show ?thesis
      using z p8 True r i by (auto simp: grad_append split: if_splits)
  qed
  from ls o7 show "(\<exists>t. loss = Div t k) \<and>
     backward_losses (map fst (trace w')) = backward_losses (map fst (trace w)) @ [loss] \<and>
     batches_per_step g (map fst (trace w')) =
       batches_per_step g (map fst (trace w)) @
       (if (i + 1) mod k = 0
        then [Suc (if k = 1 \<and> i = 0 then 0 else gradients_held g (map fst (trace w)))]
        else []) \<and>
     gradients_held g (map fst (trace w')) =
       (if (i + 1) mod k = 0 \<and> 0 < i then 0
        else Suc (if k = 1 \<and> i = 0 then 0 else gradients_held g (map fst (trace w))))"
    by blast
qed

theorem train_one_step_gradients_witness:
  "accumulation_steps
     (self (snd (init_tez env0 args0 0 (Some 1) None None None None None w0))) = 1 \<and>
   batch_index (self (snd (init_tez env0 args0 0 (Some 1) None None None None None w0))) = 0 \<and>
   fst (train_one_step env0 [(''x'', 1)]
          (snd (init_tez env0 args0 0 (Some 1) None None None None None w0))) =
     Inr (Div (Loss 5) 1, []) \<and>
   batches_per_step 0 (map fst (trace (snd (train_one_step env0 [(''x'', 1)]
          (snd (init_tez env0 args0 0 (Some 1) None None None None None w0))))))
     = [1] \<and>
   gradients_held 0 (map fst (trace (snd (train_one_step env0 [(''x'', 1)]
          (snd (init_tez env0 args0 0 (Some 1) None None None None None w0))))))
     = 1 \<and>
   batches_per_step 0
     (map fst (trace (snd (fit env0 0 args0 (Some 1) None None None None None w0)))) =
     [1, 2, 1, 2] \<and>
   batches_per_step 0
     (map fst (trace (snd (fit env0 0 (args0\<lparr>args_accumulation_steps := 2\<rparr>) (Some 1)
        None None None None None w0)))) = [2, 2]"
proof -
  let ?wi = "snd (init_tez env0 args0 0 (Some 1) None None None None None w0)"
  let ?r = "train_one_step env0 [(''x'', 1)] ?wi"
  have a: "accumulation_steps (self ?wi) = 1" by code_simp
  have b: "batch_index (self ?wi) = 0" by code_simp
  have c: "fst ?r = Inr (Div (Loss 5) 1, [])" by code_simp
  have d: "gradients_held 0 (map fst (trace ?wi)) = 0" by code_simp
  have e: "batches_per_step 0 (map fst (trace ?wi)) = []" by code_simp
  have f: "batches_per_step 0
     (map fst (trace (snd (fit env0 0 args0 (Some 1) None None None None None w0)))) =
     [1, 2, 1, 2]" by code_simp
  have h: "batches_per_step 0
     (map fst (trace (snd (fit env0 0 (args0\<lparr>args_accumulation_steps := 2\<rparr>) (Some 1)
        None None None None None w0)))) = [2, 2]" by code_simp
  from c have r: "?r = (Inr (Div (Loss 5) 1, []), snd ?r)"
    by (simp add: prod_eq_iff)
  show ?thesis
    using train_one_step_gradients [of ?wi 1 0 env0 "[(''x'', 1)]" "Div (Loss 5) 1" "[]" "snd ?r" 0]
      a b c d e f h r
    by simp
qed


end
